theory Spec2Isabelle
  imports Complex_Main
begin

section \<open>Numbers of the host language\<close>

text \<open>
  Wallet money, cost and quantity are Mongoose \<^verbatim>\<open>Number\<close> fields, and the service
  computes on them with the host language's \<^verbatim>\<open>+\<close>, \<^verbatim>\<open>*\<close>, \<^verbatim>\<open>-=\<close> and
  \<^verbatim>\<open>>\<close>: IEEE 754 binary64 arithmetic, rounding to nearest with ties to even. A
  number is \<open>NaN\<close>, an infinity, or a finite value given by the rational it denotes.
  The two zeros are one value here: the service never divides, and none of its
  comparisons tells them apart.
\<close>

datatype number = NaN | PosInf | NegInf | Fin rat

text \<open>The number of binary digits of a positive integer.\<close>

function bitlen :: "int \<Rightarrow> nat" where
  "bitlen n = (if n \<le> 0 then 0 else Suc (bitlen (n div 2)))"
  by pat_completeness auto
termination
  by (relation "measure nat") auto

declare bitlen.simps [simp del]

definition pow2 :: "int \<Rightarrow> rat" where
  "pow2 e = (if 0 \<le> e then 2 ^ nat e else 1 / 2 ^ nat (- e))"

text \<open>
  The binary exponent of a positive rational: \<open>pow2 (expo x) \<le> x < pow2 (expo x + 1)\<close>.
\<close>

definition expo :: "rat \<Rightarrow> int" where
  "expo x = (if 1 \<le> x then int (bitlen \<lfloor>x\<rfloor>) - 1
             else - int (bitlen (\<lceil>1 / x\<rceil> - 1)))"

definition round_half_even :: "rat \<Rightarrow> int" where
  "round_half_even q =
     (if q - of_int \<lfloor>q\<rfloor> < 1 / 2 then \<lfloor>q\<rfloor>
      else if 1 / 2 < q - of_int \<lfloor>q\<rfloor> then \<lfloor>q\<rfloor> + 1
      else if even \<lfloor>q\<rfloor> then \<lfloor>q\<rfloor> else \<lfloor>q\<rfloor> + 1)"

text \<open>
  Rounding an exact result to binary64: the significand has 53 binary digits, the unit in
  the last place is \<open>pow2 (expo \<bar>x\<bar> - 52)\<close> and never less than \<open>pow2 (- 1074)\<close>
  (subnormal range), and a rounded magnitude of \<open>pow2 1024\<close> or more overflows to an
  infinity.
\<close>

definition round_double :: "rat \<Rightarrow> number" where
  "round_double x =
     (if x = 0 then Fin 0
      else let u = pow2 (max (expo \<bar>x\<bar>) (- 1022) - 52);
               r = of_int (round_half_even (\<bar>x\<bar> / u)) * u
           in if pow2 1024 \<le> r then (if 0 < x then PosInf else NegInf)
              else Fin (sgn x * r))"

fun js_add :: "number \<Rightarrow> number \<Rightarrow> number" where
  "js_add (Fin x) (Fin y) = round_double (x + y)"
| "js_add NaN b = NaN"
| "js_add a NaN = NaN"
| "js_add PosInf NegInf = NaN"
| "js_add NegInf PosInf = NaN"
| "js_add PosInf b = PosInf"
| "js_add a PosInf = PosInf"
| "js_add NegInf b = NegInf"
| "js_add a NegInf = NegInf"

fun js_sub :: "number \<Rightarrow> number \<Rightarrow> number" where
  "js_sub (Fin x) (Fin y) = round_double (x - y)"
| "js_sub NaN b = NaN"
| "js_sub a NaN = NaN"
| "js_sub PosInf PosInf = NaN"
| "js_sub NegInf NegInf = NaN"
| "js_sub PosInf b = PosInf"
| "js_sub a PosInf = NegInf"
| "js_sub NegInf b = NegInf"
| "js_sub a NegInf = PosInf"

fun js_mul :: "number \<Rightarrow> number \<Rightarrow> number" where
  "js_mul (Fin x) (Fin y) = round_double (x * y)"
| "js_mul NaN b = NaN"
| "js_mul a NaN = NaN"
| "js_mul PosInf PosInf = PosInf"
| "js_mul NegInf NegInf = PosInf"
| "js_mul PosInf NegInf = NegInf"
| "js_mul NegInf PosInf = NegInf"
| "js_mul PosInf (Fin y) = (if y = 0 then NaN else if 0 < y then PosInf else NegInf)"
| "js_mul NegInf (Fin y) = (if y = 0 then NaN else if 0 < y then NegInf else PosInf)"
| "js_mul (Fin x) PosInf = (if x = 0 then NaN else if 0 < x then PosInf else NegInf)"
| "js_mul (Fin x) NegInf = (if x = 0 then NaN else if 0 < x then NegInf else PosInf)"

text \<open>\<^verbatim>\<open>a > b\<close>; every comparison with \<open>NaN\<close> is false.\<close>

fun js_gt :: "number \<Rightarrow> number \<Rightarrow> bool" where
  "js_gt (Fin x) (Fin y) = (y < x)"
| "js_gt NaN b = False"
| "js_gt a NaN = False"
| "js_gt PosInf PosInf = False"
| "js_gt PosInf b = True"
| "js_gt a PosInf = False"
| "js_gt NegInf b = False"
| "js_gt a NegInf = True"

text \<open>
  The rational a finite number denotes, and the numbers on which the arithmetic of the
  service is exact: the non-negative integers up to \<open>2 ^ 53 = 9007199254740992\<close>.
\<close>

definition exact :: "number \<Rightarrow> rat" where
  "exact a = (case a of Fin x \<Rightarrow> x | _ \<Rightarrow> 0)"

definition safe_nat :: "number \<Rightarrow> bool" where
  "safe_nat a =
     (case a of
        Fin x \<Rightarrow> 0 \<le> x \<and> x \<le> 9007199254740992 \<and> of_int \<lfloor>x\<rfloor> = x
      | _ \<Rightarrow> False)"

definition positive_integer :: "number \<Rightarrow> bool" where
  "positive_integer a =
     (case a of
        Fin x \<Rightarrow> 0 < x \<and> of_int \<lfloor>x\<rfloor> = x
      | _ \<Rightarrow> False)"

section \<open>Data model\<close>

text \<open>
  The cart service (\<^verbatim>\<open>src/services/cart.service.js\<close>) works on three Mongoose
  collections. A document is a record; only the fields the service reads or writes are
  listed (a user's name and password hash and a product's descriptive fields are never
  touched by it). Object ids are compared through \<^verbatim>\<open>toString()\<close>, so they are
  strings.
\<close>

record user =
  email :: string
  walletMoney :: number
  address :: string

record product =
  product_id :: string
  cost :: number

record cartItem =
  product :: product
  quantity :: number

record cart =
  cart_email :: string
  cartItems :: "cartItem list"

text \<open>
  \<^verbatim>\<open>config/config.js\<close> is not part of the sources at hand; the one constant the
  service depends on, \<^verbatim>\<open>config.default_address\<close>, is a parameter of the model.
\<close>

record config =
  default_address :: string

text \<open>
  The database. A cart document is unique by its owner email, the key of every lookup the
  service makes: the carts collection maps an email to the item list of the cart stored
  for it, and the document read back is that email with that list. Users are keyed by
  email as well; products are a collection searched by id. \<open>cart_create_fails\<close> is the
  persistence fault that makes \<^verbatim>\<open>Cart.create\<close> reject, the only fault the service
  catches; lookups and saves are taken to succeed.
\<close>

record db =
  carts :: "string \<rightharpoonup> cartItem list"
  users :: "string \<rightharpoonup> user"
  products :: "product list"
  cart_create_fails :: bool

subsection \<open>Errors\<close>

datatype ApiError = ApiError (statusCode: nat) (message: string)

definition BAD_REQUEST :: nat where
  "BAD_REQUEST = 400"

definition NOT_FOUND :: nat where
  "NOT_FOUND = 404"

definition INTERNAL_SERVER_ERROR :: nat where
  "INTERNAL_SERVER_ERROR = 500"

definition err_no_cart :: ApiError where
  "err_no_cart = ApiError NOT_FOUND ''User does not have a cart''"

definition err_creation_failed :: ApiError where
  "err_creation_failed = ApiError INTERNAL_SERVER_ERROR ''Cart creation failed''"

definition err_already_in_cart :: ApiError where
  "err_already_in_cart = ApiError BAD_REQUEST
     ''Product already in cart. Use the cart sidebar to update or remove product from cart''"

definition err_no_product :: ApiError where
  "err_no_product = ApiError BAD_REQUEST ''Product doesn't exist in database''"

definition err_no_cart_update :: ApiError where
  "err_no_cart_update = ApiError BAD_REQUEST
     ''User does not have a cart. Use POST to create cart and add a product''"

definition err_not_in_cart :: ApiError where
  "err_not_in_cart = ApiError BAD_REQUEST ''Product not in cart''"

definition err_no_cart_delete :: ApiError where
  "err_no_cart_delete = ApiError BAD_REQUEST ''User does not have a cart.''"

definition err_cart_empty :: ApiError where
  "err_cart_empty = ApiError BAD_REQUEST ''Cart is empty''"

definition err_address_not_set :: ApiError where
  "err_address_not_set = ApiError BAD_REQUEST ''Address not set''"

definition err_insufficient :: ApiError where
  "err_insufficient = ApiError BAD_REQUEST ''User has insufficient money to process''"

section \<open>Persistence accessors\<close>

definition Cart_findOne :: "db \<Rightarrow> string \<Rightarrow> cart option" where
  "Cart_findOne s e =
     (case carts s e of
        None \<Rightarrow> None
      | Some items \<Rightarrow> Some \<lparr>cart_email = e, cartItems = items\<rparr>)"

definition Cart_create :: "db \<Rightarrow> string \<Rightarrow> (cart \<times> db) option" where
  "Cart_create s e =
     (if cart_create_fails s then None
      else Some (\<lparr>cart_email = e, cartItems = []\<rparr>,
                 s\<lparr>carts := (carts s)(e \<mapsto> [])\<rparr>))"

definition cart_save :: "cart \<Rightarrow> db \<Rightarrow> db" where
  "cart_save c s = s\<lparr>carts := (carts s)(cart_email c \<mapsto> cartItems c)\<rparr>"

definition user_save :: "user \<Rightarrow> db \<Rightarrow> db" where
  "user_save u s = s\<lparr>users := (users s)(email u \<mapsto> u)\<rparr>"

definition Product_findById :: "db \<Rightarrow> string \<Rightarrow> product option" where
  "Product_findById s productId = find (\<lambda>p. product_id p = productId) (products s)"

section \<open>Array helpers of the host language\<close>

text \<open>
  \<^verbatim>\<open>Array.prototype.findIndex\<close>: the index of the first element satisfying the
  predicate, \<open>-1\<close> when there is none.
\<close>

fun findIndex_from :: "('a \<Rightarrow> bool) \<Rightarrow> 'a list \<Rightarrow> int \<Rightarrow> int" where
  "findIndex_from P [] k = - 1"
| "findIndex_from P (x # xs) k = (if P x then k else findIndex_from P xs (k + 1))"

definition findIndex :: "('a \<Rightarrow> bool) \<Rightarrow> 'a list \<Rightarrow> int" where
  "findIndex P xs = findIndex_from P xs 0"

text \<open>
  \<^verbatim>\<open>Array.prototype.splice(start, deleteCount)\<close> with no inserted elements: a negative
  start counts from the end, both arguments are clamped to the array.
\<close>

definition splice_array :: "'a list \<Rightarrow> int \<Rightarrow> int \<Rightarrow> 'a list" where
  "splice_array xs start deleteCount =
     (let len = int (length xs);
          st = (if start < 0 then max (len + start) 0 else min start len);
          dc = min (max deleteCount 0) (len - st)
      in take (nat st) xs @ drop (nat (st + dc)) xs)"

section \<open>User model\<close>

definition hasSetNonDefaultAddress :: "config \<Rightarrow> user \<Rightarrow> bool" where
  "hasSetNonDefaultAddress cfg u = (address u \<noteq> default_address cfg)"

section \<open>Cart service\<close>

text \<open>
  Every operation takes the database and returns its outcome (\<open>Inl\<close> the thrown
  \<open>ApiError\<close>, \<open>Inr\<close> the returned value) together with the database it leaves behind;
  \<open>checkout\<close> also returns the user object, which it mutates in memory.
\<close>

definition getCartByUser :: "user \<Rightarrow> db \<Rightarrow> (ApiError + cart) \<times> db" where
  "getCartByUser u s =
     (case Cart_findOne s (email u) of
        None \<Rightarrow> (Inl err_no_cart, s)
      | Some c \<Rightarrow> (Inr c, s))"

definition addProductToCart :: "user \<Rightarrow> string \<Rightarrow> number \<Rightarrow> db \<Rightarrow> (ApiError + cart) \<times> db" where
  "addProductToCart u productId qty s =
     (case (case Cart_findOne s (email u) of
              None \<Rightarrow> Cart_create s (email u)
            | Some c \<Rightarrow> Some (c, s)) of
        None \<Rightarrow> (Inl err_creation_failed, s)
      | Some (c, s1) \<Rightarrow>
          if list_ex (\<lambda>item. product_id (product item) = productId) (cartItems c)
          then (Inl err_already_in_cart, s1)
          else (case Product_findById s1 productId of
                  None \<Rightarrow> (Inl err_no_product, s1)
                | Some p \<Rightarrow>
                    (Inr (c\<lparr>cartItems := cartItems c @ [\<lparr>product = p, quantity = qty\<rparr>]\<rparr>),
                     cart_save
                       (c\<lparr>cartItems := cartItems c @ [\<lparr>product = p, quantity = qty\<rparr>]\<rparr>) s1)))"

definition updateProductInCart :: "user \<Rightarrow> string \<Rightarrow> number \<Rightarrow> db \<Rightarrow> (ApiError + cart) \<times> db" where
  "updateProductInCart u productId qty s =
     (case Cart_findOne s (email u) of
        None \<Rightarrow> (Inl err_no_cart_update, s)
      | Some c \<Rightarrow>
          (case Product_findById s productId of
             None \<Rightarrow> (Inl err_no_product, s)
           | Some p \<Rightarrow>
               (let productIndex =
                      findIndex (\<lambda>item. product_id (product item) = productId) (cartItems c)
                in if productIndex = - 1 then (Inl err_not_in_cart, s)
                   else (Inr (c\<lparr>cartItems := (cartItems c)
                                  [nat productIndex :=
                                     (cartItems c ! nat productIndex)\<lparr>quantity := qty\<rparr>]\<rparr>),
                         cart_save
                           (c\<lparr>cartItems := (cartItems c)
                                  [nat productIndex :=
                                     (cartItems c ! nat productIndex)\<lparr>quantity := qty\<rparr>]\<rparr>)
                           s))))"

definition deleteProductFromCart :: "user \<Rightarrow> string \<Rightarrow> db \<Rightarrow> (ApiError + unit) \<times> db" where
  "deleteProductFromCart u productId s =
     (case Cart_findOne s (email u) of
        None \<Rightarrow> (Inl err_no_cart_delete, s)
      | Some c \<Rightarrow>
          (let productIndex =
                 findIndex (\<lambda>item. product_id (product item) = productId) (cartItems c)
           in if productIndex = - 1 then (Inl err_not_in_cart, s)
              else (Inr (), cart_save (c\<lparr>cartItems := splice_array (cartItems c) productIndex 1\<rparr>) s)))"

definition totalCost :: "cartItem list \<Rightarrow> number" where
  "totalCost items =
     foldl (\<lambda>acc item. js_add acc (js_mul (cost (product item)) (quantity item))) (Fin 0) items"

definition checkout :: "config \<Rightarrow> user \<Rightarrow> db \<Rightarrow> (ApiError + unit) \<times> user \<times> db" where
  "checkout cfg u s =
     (case Cart_findOne s (email u) of
        None \<Rightarrow> (Inl err_no_cart, u, s)
      | Some c \<Rightarrow>
          if length (cartItems c) = 0 then (Inl err_cart_empty, u, s)
          else if \<not> hasSetNonDefaultAddress cfg u then (Inl err_address_not_set, u, s)
          else if js_gt (totalCost (cartItems c)) (walletMoney u)
          then (Inl err_insufficient, u, s)
          else (Inr (),
                u\<lparr>walletMoney := js_sub (walletMoney u) (totalCost (cartItems c))\<rparr>,
                cart_save (c\<lparr>cartItems := []\<rparr>)
                  (user_save
                     (u\<lparr>walletMoney := js_sub (walletMoney u) (totalCost (cartItems c))\<rparr>) s)))"


section \<open>Invariants of the data model\<close>

text \<open>Every stored cart item has an integer quantity strictly greater than zero.\<close>

definition quantities_positive :: "db \<Rightarrow> bool" where
  "quantities_positive s =
     (\<forall>items\<in>ran (carts s). \<forall>item\<in>set items. positive_integer (quantity item))"

text \<open>No stored cart lists the same product twice.\<close>

definition unique_products :: "db \<Rightarrow> bool" where
  "unique_products s =
     (\<forall>items\<in>ran (carts s). distinct (map (\<lambda>item. product_id (product item)) items))"

section \<open>Scenarios\<close>

text \<open>
  Concrete data for the worked scenarios: a configuration, a user with a wallet of 500
  and a delivery address, a user who never set an address, two products, and databases
  holding no cart at all or exactly one cart.
\<close>

definition default_cfg :: config where
  "default_cfg = \<lparr>default_address = ''ADDRESS_NOT_SET''\<rparr>"

definition alice :: user where
  "alice =
     \<lparr>email = ''alice@example.com'', walletMoney = Fin 500, address = ''123 Main St''\<rparr>"

definition bob :: user where
  "bob =
     \<lparr>email = ''bob@example.com'', walletMoney = Fin 500, address = ''ADDRESS_NOT_SET''\<rparr>"

definition shirt :: product where
  "shirt = \<lparr>product_id = ''p1'', cost = Fin 100\<rparr>"

definition mug :: product where
  "mug = \<lparr>product_id = ''p2'', cost = Fin 40\<rparr>"

definition empty_db :: db where
  "empty_db =
     \<lparr>carts = Map.empty,
      users = [''alice@example.com'' \<mapsto> alice, ''bob@example.com'' \<mapsto> bob],
      products = [shirt, mug],
      cart_create_fails = False\<rparr>"

definition db_with :: "string \<Rightarrow> cartItem list \<Rightarrow> db" where
  "db_with e items = empty_db\<lparr>carts := [e \<mapsto> items]\<rparr>"

text \<open>
  Data beyond \<open>2 ^ 53\<close>, where binary64 no longer holds every integer: two products of
  cost \<open>2 ^ 53\<close> and \<open>1\<close>, whose exact sum \<open>2 ^ 53 + 1\<close> lies halfway between
  two numbers and is rounded to \<open>2 ^ 53\<close>.
\<close>

definition vault :: product where
  "vault = \<lparr>product_id = ''p3'', cost = Fin 9007199254740992\<rparr>"

definition penny :: product where
  "penny = \<lparr>product_id = ''p4'', cost = Fin 1\<rparr>"

definition carol :: user where
  "carol =
     \<lparr>email = ''carol@example.com'', walletMoney = Fin 9007199254740994,
      address = ''9 Hill Road''\<rparr>"

definition dave :: user where
  "dave =
     \<lparr>email = ''dave@example.com'', walletMoney = Fin 9007199254740992,
      address = ''4 Mill Lane''\<rparr>"

definition big_cart :: "cartItem list" where
  "big_cart = [\<lparr>product = vault, quantity = Fin 1\<rparr>, \<lparr>product = penny, quantity = Fin 1\<rparr>]"

lemmas scenario_defs =
  default_cfg_def alice_def bob_def shirt_def mug_def empty_db_def db_with_def
  vault_def penny_def big_cart_def carol_def dave_def

section \<open>Auxiliary facts\<close>

lemmas service_defs = Cart_findOne_def Cart_create_def cart_save_def user_save_def

lemmas checkout_defs = checkout_def hasSetNonDefaultAddress_def service_defs

lemmas error_defs =
  err_no_cart_def err_creation_failed_def err_already_in_cart_def err_no_product_def
  err_no_cart_update_def err_not_in_cart_def err_no_cart_delete_def err_cart_empty_def
  err_address_not_set_def err_insufficient_def BAD_REQUEST_def NOT_FOUND_def
  INTERNAL_SERVER_ERROR_def

subsection \<open>Rounding: the exponent, and exactness on integers up to \<open>2 ^ 53\<close>\<close>

lemma bitlen_pos: "0 < n \<Longrightarrow> 0 < bitlen n"
  by (subst bitlen.simps) simp

lemma bitlen_lower: "0 < n \<Longrightarrow> 2 ^ (bitlen n - 1) \<le> n"
proof (induction n rule: bitlen.induct)
  case (1 n)
  show ?case
  proof (cases "n div 2 \<le> 0")
    case True
    then have "bitlen (n div 2) = 0" by (subst bitlen.simps) simp
    then have "bitlen n = 1" using "1.prems" by (subst bitlen.simps) simp
    then show ?thesis using "1.prems" by simp
  next
    case False
    then have pos: "0 < n div 2" by simp
    have ih: "2 ^ (bitlen (n div 2) - 1) \<le> n div 2"
      using "1.IH" "1.prems" pos by simp
    have bl: "bitlen n = Suc (bitlen (n div 2))"
      using "1.prems" by (subst bitlen.simps) simp
    have "0 < bitlen (n div 2)" using pos by (rule bitlen_pos)
    then have "(2::int) ^ (bitlen n - 1) = 2 * 2 ^ (bitlen (n div 2) - 1)"
      using bl by (cases "bitlen (n div 2)") simp_all
    also have "\<dots> \<le> 2 * (n div 2)" using ih by simp
    also have "\<dots> \<le> n" by simp
    finally show ?thesis .
  qed
qed

lemma bitlen_upper: "n < 2 ^ bitlen n"
proof (induction n rule: bitlen.induct)
  case (1 n)
  show ?case
  proof (cases "n \<le> 0")
    case True
    have "n \<le> 0" by fact
    also have "(0::int) < 2 ^ bitlen n" by simp
    finally show ?thesis .
  next
    case False
    then have ih: "n div 2 < 2 ^ bitlen (n div 2)" using "1.IH" by simp
    have bl: "bitlen n = Suc (bitlen (n div 2))"
      using False by (subst bitlen.simps) simp
    have "n div 2 + 1 \<le> 2 ^ bitlen (n div 2)" using ih by simp
    then have "2 * (n div 2) + 2 \<le> 2 * 2 ^ bitlen (n div 2)" by simp
    moreover have "n < 2 * (n div 2) + 2" by presburger
    ultimately show ?thesis by (simp add: bl)
  qed
qed

lemma pow2_nat: "pow2 (int k) = 2 ^ k"
  by (simp add: pow2_def)

lemma pow2_neg: "pow2 (- int k) = 1 / 2 ^ k"
  by (cases "k = 0") (simp_all add: pow2_def)

lemma expo_bounds:
  assumes "0 < x"
  shows "pow2 (expo x) \<le> x \<and> x < pow2 (expo x + 1)"
proof (cases "1 \<le> x")
  case True
  define n where "n = \<lfloor>x\<rfloor>"
  define b where "b = bitlen n"
  have npos: "0 < n" using True by (simp add: n_def)
  have bpos: "0 < b" unfolding b_def using npos by (rule bitlen_pos)
  have e: "expo x = int (b - 1)" using True bpos by (simp add: expo_def n_def b_def)
  have e1: "expo x + 1 = int b" using e bpos by simp
  have "(2::int) ^ (b - 1) \<le> n" unfolding b_def using npos by (rule bitlen_lower)
  then have "(of_int (2 ^ (b - 1)) :: rat) \<le> of_int n" by (simp only: of_int_le_iff)
  also have "\<dots> \<le> x" by (simp add: n_def)
  finally have low: "pow2 (expo x) \<le> x" by (simp add: e pow2_nat)
  have "n + 1 \<le> 2 ^ b" using bitlen_upper [of n] by (simp add: b_def)
  then have "(of_int (n + 1) :: rat) \<le> of_int (2 ^ b)" by (simp only: of_int_le_iff)
  moreover have "x < of_int (n + 1)" by (simp add: n_def) linarith
  ultimately have "x < of_int (2 ^ b)" by (rule less_le_trans [rotated])
  then have "x < pow2 (expo x + 1)" by (simp add: e1 pow2_nat)
  with low show ?thesis by simp
next
  case False
  define c where "c = \<lceil>1 / x\<rceil>"
  define k where "k = bitlen (c - 1)"
  have y: "1 < 1 / x" using False assms by simp
  have c2: "1 < c" using y by (simp add: c_def less_ceiling_iff)
  have kpos: "0 < k" unfolding k_def using c2 by (intro bitlen_pos) simp
  have e: "expo x = - int k" using False by (simp add: expo_def c_def k_def)
  have e1: "expo x + 1 = - int (k - 1)" using e kpos by simp
  have "c - 1 < 2 ^ k" unfolding k_def by (rule bitlen_upper)
  then have "c \<le> 2 ^ k" by simp
  then have "(of_int c :: rat) \<le> of_int (2 ^ k)" by (simp only: of_int_le_iff)
  moreover have "1 / x \<le> of_int c" by (simp add: c_def)
  ultimately have "1 / x \<le> of_int (2 ^ k)" by (rule order_trans [rotated])
  then have "1 / x \<le> 2 ^ k" by simp
  then have "1 \<le> 2 ^ k * x" using assms by (simp add: field_simps)
  then have low: "pow2 (expo x) \<le> x" by (simp add: e pow2_neg field_simps)
  have "(2::int) ^ (k - 1) \<le> c - 1" unfolding k_def using c2 by (intro bitlen_lower) simp
  then have "(of_int (2 ^ (k - 1)) :: rat) \<le> of_int (c - 1)" by (simp only: of_int_le_iff)
  moreover have "of_int (c - 1) < 1 / x" by (simp add: c_def) linarith
  ultimately have "of_int (2 ^ (k - 1)) < 1 / x" by (rule le_less_trans)
  then have "2 ^ (k - 1) < 1 / x" by simp
  then have "2 ^ (k - 1) * x < 1" using assms by (simp add: field_simps)
  then have "x < 1 / 2 ^ (k - 1)" by (simp add: field_simps)
  moreover have "pow2 (expo x + 1) = 1 / 2 ^ (k - 1)" by (simp only: e1 pow2_neg)
  ultimately have "x < pow2 (expo x + 1)" by simp
  with low show ?thesis by simp
qed

lemma round_double_tenth:
  "round_double (1 / 10) = Fin (3602879701896397 / 36028797018963968)"
  by code_simp

lemma round_half_even_of_int: "round_half_even (of_int m) = m"
  by (simp add: round_half_even_def)

lemma round_double_safe:
  assumes int: "of_int \<lfloor>x\<rfloor> = x" and bound: "\<bar>x\<bar> \<le> 9007199254740992"
  shows "round_double x = Fin x"
proof (cases "x = 0")
  case True
  then show ?thesis by (simp add: round_double_def)
next
  case False
  obtain m where xm: "x = of_int m"
    using int by (metis)
  define n where "n = \<bar>m\<bar>"
  have ax: "\<bar>x\<bar> = of_int n"
    by (simp add: xm n_def)
  have npos: "0 < n" using False by (simp add: xm n_def)
  have nle: "n \<le> 2 ^ 53"
  proof -
    have "(of_int n :: rat) \<le> of_int (2 ^ 53)" using bound by (simp add: ax)
    then show ?thesis by (simp only: of_int_le_iff)
  qed
  define b where "b = bitlen n"
  have bpos: "0 < b" using npos by (simp add: b_def bitlen_pos)
  have low: "2 ^ (b - 1) \<le> n" unfolding b_def using npos by (rule bitlen_lower)
  have p53: "(2::int) ^ (b - 1) \<le> 2 ^ 53" using low nle by (rule order_trans)
  have ble: "b - 1 \<le> 53"
    by (rule power_le_imp_le_exp [where a = "2::int"]) (simp, rule p53)
  have ex: "expo \<bar>x\<bar> = int b - 1"
    using npos by (simp add: expo_def ax b_def)
  have mx: "max (expo \<bar>x\<bar>) (- 1022) - 52 = int b - 53"
    using ex bpos by simp
  have r: "of_int (round_half_even (\<bar>x\<bar> / pow2 (int b - 53))) * pow2 (int b - 53) = \<bar>x\<bar>"
  proof (cases "b - 1 = 53")
    case True
    then have b54: "b = 54" using bpos by simp
    have "n = 2 ^ 53" using low nle True by simp
    then have "\<bar>x\<bar> = 9007199254740992" using ax by simp
    then show ?thesis
      using round_half_even_of_int [of 4503599627370496]
      by (simp add: b54 pow2_def)
  next
    case False
    then have b53: "b \<le> 53" using ble by simp
    have p: "pow2 (int b - 53) = 1 / 2 ^ (53 - b)"
    proof (cases "b = 53")
      case True
      then show ?thesis by (simp add: pow2_def)
    next
      case False
      then have "int b - 53 < 0" using b53 by simp
      moreover have "nat (53 - int b) = 53 - b" by simp
      ultimately show ?thesis by (simp add: pow2_def)
    qed
    have "\<bar>x\<bar> / pow2 (int b - 53) = of_int (n * 2 ^ (53 - b))"
      by (simp add: p ax)
    then have "round_half_even (\<bar>x\<bar> / pow2 (int b - 53)) = n * 2 ^ (53 - b)"
      by (simp only: round_half_even_of_int)
    then show ?thesis by (simp add: p ax)
  qed
  have small: "\<not> pow2 1024 \<le> \<bar>x\<bar>"
  proof -
    have "(9007199254740992::rat) < 2 ^ 1024" by simp
    then show ?thesis using bound by (simp add: pow2_def)
  qed
  have "sgn x * \<bar>x\<bar> = x" by (simp add: sgn_mult_abs)
  then show ?thesis
    using False r small
    by (simp add: round_double_def Let_def mx)
qed

lemma round_double_tie: "round_double 9007199254740993 = Fin 9007199254740992"
  by code_simp

subsection \<open>The total of a cart\<close>

lemma exact_Fin: "exact (Fin x) = x"
  by (simp add: exact_def)

lemma safe_nat_Fin: "safe_nat a \<Longrightarrow> a = Fin (exact a)"
  by (cases a) (simp_all add: safe_nat_def exact_def)

lemma safe_nat_exact:
  "safe_nat a \<Longrightarrow> 0 \<le> exact a \<and> exact a \<le> 9007199254740992 \<and> exact a \<in> \<int>"
proof (cases a)
  case (Fin x)
  assume "safe_nat a"
  then have x: "0 \<le> x" "x \<le> 9007199254740992" "of_int \<lfloor>x\<rfloor> = x"
    using Fin by (simp_all add: safe_nat_def)
  have "x \<in> \<int>" using x(3) by (metis Ints_of_int)
  then show ?thesis using x Fin by (simp add: exact_def)
qed (simp_all add: safe_nat_def)

lemma round_double_Ints:
  assumes "x \<in> \<int>" and "\<bar>x\<bar> \<le> 9007199254740992"
  shows "round_double x = Fin x"
proof -
  have "of_int \<lfloor>x\<rfloor> = x" using assms(1) by (auto elim: Ints_cases)
  then show ?thesis using assms(2) by (rule round_double_safe)
qed

lemma sum_products_nonneg:
  assumes "\<forall>item\<in>set items. safe_nat (cost (product item)) \<and> safe_nat (quantity item)"
  shows "0 \<le> (\<Sum>item\<leftarrow>items. exact (cost (product item)) * exact (quantity item))"
  using assms by (intro sum_list_nonneg) (auto dest!: safe_nat_exact)

lemma sum_products_Ints:
  assumes "\<forall>item\<in>set items. safe_nat (cost (product item)) \<and> safe_nat (quantity item)"
  shows "(\<Sum>item\<leftarrow>items. exact (cost (product item)) * exact (quantity item)) \<in> \<int>"
  using assms by (induction items) (auto dest!: safe_nat_exact)

lemma totalCost_foldl_exact:
  assumes "\<forall>item\<in>set items. safe_nat (cost (product item)) \<and> safe_nat (quantity item)"
    and "a \<in> \<int>" and "0 \<le> a"
    and "a + (\<Sum>item\<leftarrow>items. exact (cost (product item)) * exact (quantity item))
           \<le> 9007199254740992"
  shows "foldl (\<lambda>acc item. js_add acc (js_mul (cost (product item)) (quantity item)))
           (Fin a) items =
         Fin (a + (\<Sum>item\<leftarrow>items. exact (cost (product item)) * exact (quantity item)))"
  using assms
proof (induction items arbitrary: a)
  case Nil
  then show ?case by simp
next
  case (Cons item items)
  define c where "c = exact (cost (product item))"
  define q where "q = exact (quantity item)"
  define rest where
    "rest = (\<Sum>item\<leftarrow>items. exact (cost (product item)) * exact (quantity item))"
  have safe: "safe_nat (cost (product item))" "safe_nat (quantity item)"
    and safes: "\<forall>item\<in>set items. safe_nat (cost (product item)) \<and> safe_nat (quantity item)"
    using Cons.prems(1) by simp_all
  have c: "0 \<le> c" "c \<in> \<int>" and q: "0 \<le> q" "q \<in> \<int>"
    using safe_nat_exact [OF safe(1)] safe_nat_exact [OF safe(2)] by (simp_all add: c_def q_def)
  have fin: "cost (product item) = Fin c" "quantity item = Fin q"
    using safe_nat_Fin [OF safe(1)] safe_nat_Fin [OF safe(2)] by (simp_all add: c_def q_def)
  have rest0: "0 \<le> rest" unfolding rest_def using safes by (rule sum_products_nonneg)
  have cq: "0 \<le> c * q" "c * q \<in> \<int>" using c q by simp_all
  have bound: "a + (c * q + rest) \<le> 9007199254740992"
    using Cons.prems(4) by (simp add: c_def q_def rest_def)
  have "\<bar>c * q\<bar> \<le> 9007199254740992"
    using bound rest0 cq(1) Cons.prems(3) by simp
  then have mul: "js_mul (cost (product item)) (quantity item) = Fin (c * q)"
    using cq(2) by (simp add: fin round_double_Ints)
  have "\<bar>a + c * q\<bar> \<le> 9007199254740992"
    using bound rest0 cq(1) Cons.prems(3) by simp
  moreover have acq: "a + c * q \<in> \<int>" using Cons.prems(2) cq(2) by simp
  ultimately have add: "js_add (Fin a) (Fin (c * q)) = Fin (a + c * q)"
    by (simp add: round_double_Ints)
  have "foldl (\<lambda>acc item. js_add acc (js_mul (cost (product item)) (quantity item)))
          (Fin (a + c * q)) items = Fin (a + c * q + rest)"
    unfolding rest_def
  proof (rule Cons.IH [OF safes acq])
    show "0 \<le> a + c * q" using Cons.prems(3) cq(1) by simp
    show "a + c * q +
            (\<Sum>item\<leftarrow>items. exact (cost (product item)) * exact (quantity item))
            \<le> 9007199254740992"
      using bound by (simp add: rest_def)
  qed
  then have tail: "foldl (\<lambda>acc item. js_add acc (js_mul (cost (product item)) (quantity item)))
          (js_add (Fin a) (js_mul (cost (product item)) (quantity item))) items =
        Fin (a + c * q + rest)"
    by (simp only: mul add)
  show ?case
    using tail by (simp add: c_def q_def rest_def add.assoc)
qed

lemma totalCost_exact:
  assumes "\<forall>item\<in>set items. safe_nat (cost (product item)) \<and> safe_nat (quantity item)"
    and "(\<Sum>item\<leftarrow>items. exact (cost (product item)) * exact (quantity item))
           \<le> 9007199254740992"
  shows "totalCost items =
           Fin (\<Sum>item\<leftarrow>items. exact (cost (product item)) * exact (quantity item))"
  using totalCost_foldl_exact [OF assms(1), of 0] assms(2) by (simp add: totalCost_def)

lemma big_cart_nonempty: "big_cart \<noteq> []"
  by (simp add: big_cart_def)

lemma totalCost_big_cart: "totalCost big_cart = Fin 9007199254740992"
proof -
  have "round_double 9007199254740992 = Fin 9007199254740992"
    by (rule round_double_safe) simp_all
  moreover have "round_double 1 = Fin 1"
    by (rule round_double_safe) simp_all
  ultimately show ?thesis
    by (simp add: totalCost_def big_cart_def vault_def penny_def round_double_tie)
qed

subsection \<open>findIndex and splice\<close>

lemma findIndex_from_none:
  "\<not> list_ex P xs \<Longrightarrow> findIndex_from P xs k = - 1"
  by (induction xs arbitrary: k) simp_all

lemma findIndex_from_first:
  "\<forall>y\<in>set ys. \<not> P y \<Longrightarrow> P x \<Longrightarrow> findIndex_from P (ys @ x # zs) k = k + int (length ys)"
  by (induction ys arbitrary: k) simp_all

lemma findIndex_none:
  "\<not> list_ex P xs \<Longrightarrow> findIndex P xs = - 1"
  by (simp add: findIndex_def findIndex_from_none)

lemma findIndex_first:
  "\<forall>y\<in>set ys. \<not> P y \<Longrightarrow> P x \<Longrightarrow> findIndex P (ys @ x # zs) = int (length ys)"
  by (simp add: findIndex_def findIndex_from_first)

lemma splice_one:
  "splice_array (ys @ x # zs) (int (length ys)) 1 = ys @ zs"
  by (simp add: splice_array_def Let_def nat_add_distrib)

lemma set_splice_subset: "set (splice_array xs i n) \<subseteq> set xs"
  by (auto simp add: splice_array_def Let_def dest: in_set_takeD in_set_dropD)

lemma first_match_split:
  assumes "it \<in> set items" and "P it"
  shows "\<exists>xs1 x xs2. items = xs1 @ x # xs2 \<and> P x \<and> (\<forall>y\<in>set xs1. \<not> P y)"
  using assms split_list_first_prop [of items P] by blast

lemma unique_key_filter:
  "distinct (map f xs) \<Longrightarrow> x \<in> set xs \<Longrightarrow> filter (\<lambda>i. f i = f x) xs = [x]"
proof (induction xs)
  case Nil
  then show ?case by simp
next
  case (Cons a xs)
  show ?case
  proof (cases "a = x")
    case True
    have "f x \<notin> f ` set xs" using Cons.prems(1) True by simp
    then have "\<forall>i\<in>set xs. f i \<noteq> f x" by (metis imageI)
    then have "filter (\<lambda>i. f i = f x) xs = []" by (simp add: filter_empty_conv)
    with True show ?thesis by simp
  next
    case False
    then have "x \<in> set xs" using Cons.prems(2) by simp
    moreover have "f a \<noteq> f x" using Cons.prems(1) \<open>x \<in> set xs\<close> by auto
    ultimately show ?thesis using Cons by simp
  qed
qed

section \<open>Checkout\<close>

lemma checkout_passes:
  assumes "carts s (email u) = Some items"
    and "items \<noteq> []"
    and "address u \<noteq> default_address cfg"
    and "\<not> js_gt (totalCost items) (walletMoney u)"
  shows "checkout cfg u s =
           (Inr (),
            u\<lparr>walletMoney := js_sub (walletMoney u) (totalCost items)\<rparr>,
            s\<lparr>users := (users s)(email u \<mapsto>
                 u\<lparr>walletMoney := js_sub (walletMoney u) (totalCost items)\<rparr>),
              carts := (carts s)(email u \<mapsto> [])\<rparr>)"
  using assms by (simp add: checkout_defs)

lemma checkout_refuses:
  assumes "carts s (email u) = Some items"
    and "items \<noteq> []"
    and "address u \<noteq> default_address cfg"
    and "js_gt (totalCost items) (walletMoney u)"
  shows "checkout cfg u s = (Inl err_insufficient, u, s)"
  using assms by (simp add: checkout_defs)

lemma exact_debit:
  assumes "safe_nat (walletMoney u)"
    and "\<forall>item\<in>set items. safe_nat (cost (product item)) \<and> safe_nat (quantity item)"
    and "(\<Sum>item\<leftarrow>items. exact (cost (product item)) * exact (quantity item))
           \<le> exact (walletMoney u)"
  shows "\<not> js_gt (totalCost items) (walletMoney u)"
    and "js_sub (walletMoney u) (totalCost items) =
           Fin (exact (walletMoney u) -
                (\<Sum>item\<leftarrow>items. exact (cost (product item)) * exact (quantity item)))"
proof -
  define w where "w = exact (walletMoney u)"
  define t where "t = (\<Sum>item\<leftarrow>items. exact (cost (product item)) * exact (quantity item))"
  have w: "walletMoney u = Fin w" "0 \<le> w" "w \<le> 9007199254740992" "w \<in> \<int>"
    using safe_nat_Fin [OF assms(1)] safe_nat_exact [OF assms(1)] by (simp_all add: w_def)
  have t: "0 \<le> t" "t \<in> \<int>" "t \<le> w"
    using sum_products_nonneg [OF assms(2)] sum_products_Ints [OF assms(2)] assms(3)
    by (simp_all add: t_def w_def)
  have total: "totalCost items = Fin t"
    unfolding t_def using assms(2)
  proof (rule totalCost_exact)
    show "(\<Sum>item\<leftarrow>items. exact (cost (product item)) * exact (quantity item))
            \<le> 9007199254740992"
      using t(3) w(3) by (simp add: t_def)
  qed
  show "\<not> js_gt (totalCost items) (walletMoney u)"
    using t(3) by (simp add: total w(1))
  have "w - t \<in> \<int>" "\<bar>w - t\<bar> \<le> 9007199254740992"
    using w t by simp_all
  then have "round_double (w - t) = Fin (w - t)"
    by (rule round_double_Ints)
  then show "js_sub (walletMoney u) (totalCost items) =
           Fin (exact (walletMoney u) -
                (\<Sum>item\<leftarrow>items. exact (cost (product item)) * exact (quantity item)))"
    by (simp add: total w(1) exact_Fin t_def [symmetric])
qed

text \<open>
  Claim C1, as stated, fails: the total and the debit are computed in binary64. With a
  balance of \<open>2 ^ 53 + 2\<close> and items of cost \<open>2 ^ 53\<close> and \<open>1\<close>, one of each, the
  exact total \<open>2 ^ 53 + 1\<close> is at most the balance and checkout succeeds, but the
  computed total is \<open>2 ^ 53\<close> and the balance left is 2, not 1.
\<close>

theorem checkout_debits_and_clears_counterexample:
  "carts (db_with ''carol@example.com'' big_cart) (email carol) = Some big_cart \<and>
   big_cart \<noteq> [] \<and>
   address carol \<noteq> default_address default_cfg \<and>
   (\<Sum>item\<leftarrow>big_cart. exact (cost (product item)) * exact (quantity item)) =
     9007199254740993 \<and>
   exact (walletMoney carol) = 9007199254740994 \<and>
   fst (checkout default_cfg carol (db_with ''carol@example.com'' big_cart)) = Inr () \<and>
   walletMoney (fst (snd (checkout default_cfg carol (db_with ''carol@example.com'' big_cart))))
     = Fin 2 \<and>
   walletMoney (fst (snd (checkout default_cfg carol (db_with ''carol@example.com'' big_cart))))
     \<noteq> Fin (9007199254740994 - 9007199254740993)"
proof -
  have two: "round_double 2 = Fin 2"
    by (rule round_double_safe) simp_all
  have total: "totalCost big_cart = Fin 9007199254740992"
    by (rule totalCost_big_cart)
  have run: "checkout default_cfg carol (db_with ''carol@example.com'' big_cart) =
      (Inr (), carol\<lparr>walletMoney := Fin 2\<rparr>,
       (db_with ''carol@example.com'' big_cart)
         \<lparr>users := (users (db_with ''carol@example.com'' big_cart))
                     (''carol@example.com'' \<mapsto> carol\<lparr>walletMoney := Fin 2\<rparr>),
          carts := (carts (db_with ''carol@example.com'' big_cart))
                     (''carol@example.com'' \<mapsto> [])\<rparr>)"
    using big_cart_nonempty
    by (simp add: checkout_defs total two carol_def db_with_def default_cfg_def)
  show ?thesis
    by (simp add: run) (simp add: scenario_defs exact_def)
qed

text \<open>
  Claim C1, amended. Take a user with a cart of at least one item and an address other
  than the configured default. If the total cost as the service computes it (the
  binary64 sum, from the left, of the binary64 products cost times quantity) is not
  greater than the wallet balance, checkout succeeds: the balance, in the user object and
  in the persisted user, is the binary64 difference of the old balance and that total,
  and the cart's item list is stored empty; nothing else in the database changes. If the
  balance, every cost and every quantity are non-negative integers of at most \<open>2 ^ 53\<close>
  and the balance is at least the sum over the cart items of cost times quantity, then
  checkout succeeds and the balance left is exactly the old balance minus that sum.
\<close>

theorem checkout_debits_and_clears:
  assumes "carts s (email u) = Some items"
    and "items \<noteq> []"
    and "address u \<noteq> default_address cfg"
  shows "(\<not> js_gt (totalCost items) (walletMoney u) \<longrightarrow>
            checkout cfg u s =
              (Inr (),
               u\<lparr>walletMoney := js_sub (walletMoney u) (totalCost items)\<rparr>,
               s\<lparr>users := (users s)(email u \<mapsto>
                    u\<lparr>walletMoney := js_sub (walletMoney u) (totalCost items)\<rparr>),
                 carts := (carts s)(email u \<mapsto> [])\<rparr>)) \<and>
         (safe_nat (walletMoney u) \<and>
          (\<forall>item\<in>set items. safe_nat (cost (product item)) \<and> safe_nat (quantity item)) \<and>
          (\<Sum>item\<leftarrow>items. exact (cost (product item)) * exact (quantity item))
             \<le> exact (walletMoney u) \<longrightarrow>
            checkout cfg u s =
              (Inr (),
               u\<lparr>walletMoney :=
                    Fin (exact (walletMoney u) -
                         (\<Sum>item\<leftarrow>items. exact (cost (product item)) * exact (quantity item)))\<rparr>,
               s\<lparr>users := (users s)(email u \<mapsto>
                    u\<lparr>walletMoney :=
                         Fin (exact (walletMoney u) -
                              (\<Sum>item\<leftarrow>items. exact (cost (product item)) * exact (quantity item)))\<rparr>),
                 carts := (carts s)(email u \<mapsto> [])\<rparr>))"
proof (intro conjI impI)
  assume "\<not> js_gt (totalCost items) (walletMoney u)"
  with assms show "checkout cfg u s =
      (Inr (),
       u\<lparr>walletMoney := js_sub (walletMoney u) (totalCost items)\<rparr>,
       s\<lparr>users := (users s)(email u \<mapsto>
            u\<lparr>walletMoney := js_sub (walletMoney u) (totalCost items)\<rparr>),
         carts := (carts s)(email u \<mapsto> [])\<rparr>)"
    by (rule checkout_passes)
next
  assume safe: "safe_nat (walletMoney u) \<and>
      (\<forall>item\<in>set items. safe_nat (cost (product item)) \<and> safe_nat (quantity item)) \<and>
      (\<Sum>item\<leftarrow>items. exact (cost (product item)) * exact (quantity item))
        \<le> exact (walletMoney u)"
  then have ok: "\<not> js_gt (totalCost items) (walletMoney u)"
    and debit: "js_sub (walletMoney u) (totalCost items) =
           Fin (exact (walletMoney u) -
                (\<Sum>item\<leftarrow>items. exact (cost (product item)) * exact (quantity item)))"
    using exact_debit [of u items] by simp_all
  show "checkout cfg u s =
      (Inr (),
       u\<lparr>walletMoney :=
            Fin (exact (walletMoney u) -
                 (\<Sum>item\<leftarrow>items. exact (cost (product item)) * exact (quantity item)))\<rparr>,
       s\<lparr>users := (users s)(email u \<mapsto>
            u\<lparr>walletMoney :=
                 Fin (exact (walletMoney u) -
                      (\<Sum>item\<leftarrow>items. exact (cost (product item)) * exact (quantity item)))\<rparr>),
         carts := (carts s)(email u \<mapsto> [])\<rparr>)"
    using checkout_passes [OF assms ok] by (simp only: debit)
qed

text \<open>
  The scenario of the specification: balance 500, address ``123 Main St'', one item of
  cost 100 and quantity 3. The checkout succeeds, the balance is 200 and the cart is
  empty.
\<close>

theorem checkout_debits_and_clears_witness:
  "carts (db_with ''alice@example.com'' [\<lparr>product = shirt, quantity = Fin 3\<rparr>]) (email alice) =
     Some [\<lparr>product = shirt, quantity = Fin 3\<rparr>] \<and>
   address alice \<noteq> default_address default_cfg \<and>
   safe_nat (walletMoney alice) \<and> safe_nat (cost shirt) \<and> safe_nat (Fin 3) \<and>
   exact (cost shirt) * exact (Fin 3) \<le> exact (walletMoney alice) \<and>
   \<not> js_gt (totalCost [\<lparr>product = shirt, quantity = Fin 3\<rparr>]) (walletMoney alice) \<and>
   js_sub (walletMoney alice) (totalCost [\<lparr>product = shirt, quantity = Fin 3\<rparr>]) = Fin 200 \<and>
   fst (checkout default_cfg alice
          (db_with ''alice@example.com'' [\<lparr>product = shirt, quantity = Fin 3\<rparr>])) = Inr () \<and>
   walletMoney (fst (snd (checkout default_cfg alice
          (db_with ''alice@example.com'' [\<lparr>product = shirt, quantity = Fin 3\<rparr>])))) = Fin 200 \<and>
   users (snd (snd (checkout default_cfg alice
          (db_with ''alice@example.com'' [\<lparr>product = shirt, quantity = Fin 3\<rparr>])))) (email alice) =
     Some (alice\<lparr>walletMoney := Fin 200\<rparr>) \<and>
   carts (snd (snd (checkout default_cfg alice
          (db_with ''alice@example.com'' [\<lparr>product = shirt, quantity = Fin 3\<rparr>])))) (email alice) =
     Some []"
  using checkout_debits_and_clears
    [of "db_with ''alice@example.com'' [\<lparr>product = shirt, quantity = Fin 3\<rparr>]" alice
        "[\<lparr>product = shirt, quantity = Fin 3\<rparr>]" default_cfg]
  by (simp add: scenario_defs safe_nat_def exact_def totalCost_def round_double_safe)

text \<open>
  Claim C2, as stated, fails: with a balance of \<open>2 ^ 53\<close> and items of cost \<open>2 ^ 53\<close>
  and \<open>1\<close>, one of each, the total cost \<open>2 ^ 53 + 1\<close> strictly exceeds the balance,
  but the total the service computes is \<open>2 ^ 53\<close>; the guard does not fire and checkout
  succeeds.
\<close>

theorem checkout_insufficient_iff_counterexample:
  "carts (db_with ''dave@example.com'' big_cart) (email dave) = Some big_cart \<and>
   big_cart \<noteq> [] \<and>
   address dave \<noteq> default_address default_cfg \<and>
   exact (walletMoney dave) <
     (\<Sum>item\<leftarrow>big_cart. exact (cost (product item)) * exact (quantity item)) \<and>
   fst (checkout default_cfg dave (db_with ''dave@example.com'' big_cart)) = Inr () \<and>
   fst (checkout default_cfg dave (db_with ''dave@example.com'' big_cart)) \<noteq>
     Inl (ApiError 400 ''User has insufficient money to process'')"
proof -
  have zero: "round_double 0 = Fin 0"
    by (simp add: round_double_def)
  have total: "totalCost big_cart = Fin 9007199254740992"
    by (rule totalCost_big_cart)
  have run: "fst (checkout default_cfg dave (db_with ''dave@example.com'' big_cart)) = Inr ()"
    using big_cart_nonempty
    by (simp add: checkout_defs total zero dave_def db_with_def default_cfg_def)
  show ?thesis
    by (simp add: run) (simp add: scenario_defs exact_def)
qed

text \<open>
  Claim C2, amended. For a user with a non-empty cart and an address other than the
  default, checkout fails with BadRequest ``User has insufficient money to process''
  exactly when the total cost as the service computes it (in binary64) is strictly
  greater than the wallet balance. When that total and the balance are the same finite
  number, checkout succeeds and the balance left is zero, in the user object and in the
  persisted user. If the balance, every cost and every quantity are non-negative integers
  of at most \<open>2 ^ 53\<close> and so is the sum over the cart items of cost times quantity,
  the computed total is that sum: checkout then fails with that error exactly when the
  sum strictly exceeds the balance, and succeeds with balance zero when they are equal.
\<close>

theorem checkout_insufficient_iff:
  assumes "carts s (email u) = Some items"
    and "items \<noteq> []"
    and "address u \<noteq> default_address cfg"
  shows "((fst (checkout cfg u s) = Inl err_insufficient) =
            js_gt (totalCost items) (walletMoney u)) \<and>
         (\<forall>w. walletMoney u = Fin w \<and> totalCost items = Fin w \<longrightarrow>
            fst (checkout cfg u s) = Inr () \<and>
            walletMoney (fst (snd (checkout cfg u s))) = Fin 0 \<and>
            users (snd (snd (checkout cfg u s))) (email u) = Some (u\<lparr>walletMoney := Fin 0\<rparr>)) \<and>
         (safe_nat (walletMoney u) \<and>
          (\<forall>item\<in>set items. safe_nat (cost (product item)) \<and> safe_nat (quantity item)) \<and>
          (\<Sum>item\<leftarrow>items. exact (cost (product item)) * exact (quantity item))
             \<le> 9007199254740992 \<longrightarrow>
            ((fst (checkout cfg u s) = Inl err_insufficient) =
               (exact (walletMoney u) <
                  (\<Sum>item\<leftarrow>items. exact (cost (product item)) * exact (quantity item)))) \<and>
            ((\<Sum>item\<leftarrow>items. exact (cost (product item)) * exact (quantity item)) =
                 exact (walletMoney u) \<longrightarrow>
               fst (checkout cfg u s) = Inr () \<and>
               walletMoney (fst (snd (checkout cfg u s))) = Fin 0 \<and>
               users (snd (snd (checkout cfg u s))) (email u) =
                 Some (u\<lparr>walletMoney := Fin 0\<rparr>)))"
proof -
  have iff: "(fst (checkout cfg u s) = Inl err_insufficient) =
               js_gt (totalCost items) (walletMoney u)"
    using checkout_passes [OF assms] checkout_refuses [OF assms]
    by (cases "js_gt (totalCost items) (walletMoney u)") simp_all
  have equal: "fst (checkout cfg u s) = Inr () \<and>
      walletMoney (fst (snd (checkout cfg u s))) = Fin 0 \<and>
      users (snd (snd (checkout cfg u s))) (email u) = Some (u\<lparr>walletMoney := Fin 0\<rparr>)"
    if "walletMoney u = Fin w" and "totalCost items = Fin w" for w
  proof -
    have "\<not> js_gt (totalCost items) (walletMoney u)" using that by simp
    moreover have "js_sub (walletMoney u) (totalCost items) = Fin 0"
      using that by (simp add: round_double_def)
    ultimately show ?thesis
      using checkout_passes [OF assms] by simp
  qed
  have safe_case: "((fst (checkout cfg u s) = Inl err_insufficient) =
        (exact (walletMoney u) <
           (\<Sum>item\<leftarrow>items. exact (cost (product item)) * exact (quantity item)))) \<and>
      ((\<Sum>item\<leftarrow>items. exact (cost (product item)) * exact (quantity item)) =
           exact (walletMoney u) \<longrightarrow>
         fst (checkout cfg u s) = Inr () \<and>
         walletMoney (fst (snd (checkout cfg u s))) = Fin 0 \<and>
         users (snd (snd (checkout cfg u s))) (email u) = Some (u\<lparr>walletMoney := Fin 0\<rparr>))"
    if safe: "safe_nat (walletMoney u)"
      "\<forall>item\<in>set items. safe_nat (cost (product item)) \<and> safe_nat (quantity item)"
      "(\<Sum>item\<leftarrow>items. exact (cost (product item)) * exact (quantity item))
         \<le> 9007199254740992"
  proof -
    have w: "walletMoney u = Fin (exact (walletMoney u))"
      using safe(1) by (rule safe_nat_Fin)
    have total: "totalCost items =
        Fin (\<Sum>item\<leftarrow>items. exact (cost (product item)) * exact (quantity item))"
      using safe(2,3) by (rule totalCost_exact)
    have "js_gt (totalCost items) (walletMoney u) =
        (exact (walletMoney u) <
           (\<Sum>item\<leftarrow>items. exact (cost (product item)) * exact (quantity item)))"
      by (subst w, subst total) simp
    moreover have "fst (checkout cfg u s) = Inr () \<and>
         walletMoney (fst (snd (checkout cfg u s))) = Fin 0 \<and>
         users (snd (snd (checkout cfg u s))) (email u) = Some (u\<lparr>walletMoney := Fin 0\<rparr>)"
      if "(\<Sum>item\<leftarrow>items. exact (cost (product item)) * exact (quantity item)) =
            exact (walletMoney u)"
      using equal [OF w] total that by simp
    ultimately show ?thesis using iff by simp
  qed
  show ?thesis
    using iff equal safe_case by blast
qed

text \<open>
  Quantity 6 at cost 100 exceeds the balance of 500 and is refused; quantity 5 costs
  exactly 500, succeeds and leaves a balance of zero.
\<close>

theorem checkout_insufficient_iff_witness:
  "carts (db_with ''alice@example.com'' [\<lparr>product = shirt, quantity = Fin 6\<rparr>]) (email alice) =
     Some [\<lparr>product = shirt, quantity = Fin 6\<rparr>] \<and>
   address alice \<noteq> default_address default_cfg \<and>
   safe_nat (walletMoney alice) \<and> safe_nat (cost shirt) \<and> safe_nat (Fin 6) \<and>
   exact (walletMoney alice) < exact (cost shirt) * exact (Fin 6) \<and>
   js_gt (totalCost [\<lparr>product = shirt, quantity = Fin 6\<rparr>]) (walletMoney alice) \<and>
   fst (checkout default_cfg alice
          (db_with ''alice@example.com'' [\<lparr>product = shirt, quantity = Fin 6\<rparr>])) =
     Inl (ApiError 400 ''User has insufficient money to process'') \<and>
   carts (db_with ''alice@example.com'' [\<lparr>product = shirt, quantity = Fin 5\<rparr>]) (email alice) =
     Some [\<lparr>product = shirt, quantity = Fin 5\<rparr>] \<and>
   safe_nat (Fin 5) \<and>
   exact (cost shirt) * exact (Fin 5) = exact (walletMoney alice) \<and>
   totalCost [\<lparr>product = shirt, quantity = Fin 5\<rparr>] = walletMoney alice \<and>
   fst (checkout default_cfg alice
          (db_with ''alice@example.com'' [\<lparr>product = shirt, quantity = Fin 5\<rparr>])) = Inr () \<and>
   walletMoney (fst (snd (checkout default_cfg alice
          (db_with ''alice@example.com'' [\<lparr>product = shirt, quantity = Fin 5\<rparr>])))) = Fin 0"
  using checkout_insufficient_iff
    [of "db_with ''alice@example.com'' [\<lparr>product = shirt, quantity = Fin 6\<rparr>]" alice
        "[\<lparr>product = shirt, quantity = Fin 6\<rparr>]" default_cfg]
    checkout_insufficient_iff
    [of "db_with ''alice@example.com'' [\<lparr>product = shirt, quantity = Fin 5\<rparr>]" alice
        "[\<lparr>product = shirt, quantity = Fin 5\<rparr>]" default_cfg]
  by (simp add: scenario_defs error_defs safe_nat_def exact_def totalCost_def round_double_safe)

text \<open>
  Claim C3. Whenever checkout fails, the failure is one of its four guard errors (no cart,
  empty cart, address not set, insufficient money), and neither the user object nor the
  database is changed: no user and no cart is persisted, so the wallet balance and the
  cart's item list are what they were.
\<close>

theorem checkout_failure_changes_nothing:
  assumes "fst (checkout cfg u s) = Inl e"
  shows "e \<in> {err_no_cart, err_cart_empty, err_address_not_set, err_insufficient} \<and>
         snd (checkout cfg u s) = (u, s)"
  using assms by (auto simp add: checkout_defs split: option.splits if_splits)

theorem checkout_failure_changes_nothing_witness:
  "fst (checkout default_cfg alice
          (db_with ''alice@example.com'' [\<lparr>product = shirt, quantity = Fin 6\<rparr>])) =
     Inl err_insufficient \<and>
   snd (checkout default_cfg alice
          (db_with ''alice@example.com'' [\<lparr>product = shirt, quantity = Fin 6\<rparr>])) =
     (alice, db_with ''alice@example.com'' [\<lparr>product = shirt, quantity = Fin 6\<rparr>])"
proof -
  have failed: "fst (checkout default_cfg alice
          (db_with ''alice@example.com'' [\<lparr>product = shirt, quantity = Fin 6\<rparr>])) =
     Inl err_insufficient"
    by (simp add: checkout_defs totalCost_def scenario_defs round_double_safe)
  show ?thesis
    using failed checkout_failure_changes_nothing [OF failed] by simp
qed




section \<open>Adding a product\<close>

text \<open>
  Claim C6. If the user's cart already holds an item for the product id,
  \<open>addProductToCart\<close> fails with BadRequest ``Product already in cart. Use the cart
  sidebar to update or remove product from cart'' and leaves the database as it was: the
  cart's item list is unchanged, so no quantity is merged. In a cart that lists no product
  twice, the items for that product id are still exactly the one item, with the quantity
  it had.
\<close>

theorem add_duplicate_rejected:
  assumes "carts s (email u) = Some items"
    and "it \<in> set items"
    and "product_id (product it) = productId"
  shows "addProductToCart u productId qty s =
           (Inl (ApiError 400
              ''Product already in cart. Use the cart sidebar to update or remove product from cart''),
            s) \<and>
         carts (snd (addProductToCart u productId qty s)) (email u) = Some items \<and>
         (distinct (map (\<lambda>i. product_id (product i)) items) \<longrightarrow>
            filter (\<lambda>i. product_id (product i) = productId) items = [it])"
proof -
  have ex: "list_ex (\<lambda>item. product_id (product item) = productId) items"
    using assms(2,3) by (auto simp add: list_ex_iff)
  have run: "addProductToCart u productId qty s = (Inl err_already_in_cart, s)"
    using assms(1) ex by (simp add: addProductToCart_def service_defs)
  have "filter (\<lambda>i. product_id (product i) = productId) items = [it]"
    if d: "distinct (map (\<lambda>i. product_id (product i)) items)"
    using unique_key_filter [OF d assms(2)] assms(3) by simp
  with run assms(1) show ?thesis by (simp add: error_defs)
qed

theorem add_duplicate_rejected_witness:
  "carts (db_with ''alice@example.com''
            [\<lparr>product = shirt, quantity = Fin 3\<rparr>, \<lparr>product = mug, quantity = Fin 1\<rparr>]) (email alice) =
     Some [\<lparr>product = shirt, quantity = Fin 3\<rparr>, \<lparr>product = mug, quantity = Fin 1\<rparr>] \<and>
   fst (addProductToCart alice ''p1'' (Fin 2)
          (db_with ''alice@example.com''
             [\<lparr>product = shirt, quantity = Fin 3\<rparr>, \<lparr>product = mug, quantity = Fin 1\<rparr>])) =
     Inl err_already_in_cart \<and>
   carts (snd (addProductToCart alice ''p1'' (Fin 2)
          (db_with ''alice@example.com''
             [\<lparr>product = shirt, quantity = Fin 3\<rparr>, \<lparr>product = mug, quantity = Fin 1\<rparr>]))) (email alice) =
     Some [\<lparr>product = shirt, quantity = Fin 3\<rparr>, \<lparr>product = mug, quantity = Fin 1\<rparr>] \<and>
   filter (\<lambda>i. product_id (product i) = ''p1'')
     [\<lparr>product = shirt, quantity = Fin 3\<rparr>, \<lparr>product = mug, quantity = Fin 1\<rparr>] =
     [\<lparr>product = shirt, quantity = Fin 3\<rparr>]"
  using add_duplicate_rejected
    [of "db_with ''alice@example.com''
           [\<lparr>product = shirt, quantity = Fin 3\<rparr>, \<lparr>product = mug, quantity = Fin 1\<rparr>]" alice
        "[\<lparr>product = shirt, quantity = Fin 3\<rparr>, \<lparr>product = mug, quantity = Fin 1\<rparr>]"
        "\<lparr>product = shirt, quantity = Fin 3\<rparr>" "''p1''" "Fin 2"]
  by (simp add: scenario_defs error_defs)

text \<open>
  Claim C10. The duplicate guard comes before the product lookup: when the user's cart
  already holds an item for the product id, \<open>addProductToCart\<close> fails with ``Product
  already in cart. Use the cart sidebar to update or remove product from cart'' whatever
  the products collection contains, also when the id resolves to no product any more; the
  error differs from the one of the product lookup.
\<close>

theorem add_duplicate_guard_first:
  assumes "carts s (email u) = Some items"
    and "it \<in> set items"
    and "product_id (product it) = productId"
  shows "fst (addProductToCart u productId qty (s\<lparr>products := ps\<rparr>)) =
           Inl (ApiError 400
              ''Product already in cart. Use the cart sidebar to update or remove product from cart'') \<and>
         fst (addProductToCart u productId qty (s\<lparr>products := ps\<rparr>)) \<noteq> Inl err_no_product"
proof -
  have ex: "list_ex (\<lambda>item. product_id (product item) = productId) items"
    using assms(2,3) by (auto simp add: list_ex_iff)
  show ?thesis
    using assms(1) ex by (simp add: addProductToCart_def service_defs error_defs)
qed

text \<open>The shirt is in the cart and has been removed from the products collection.\<close>

theorem add_duplicate_guard_first_witness:
  "carts (db_with ''alice@example.com'' [\<lparr>product = shirt, quantity = Fin 3\<rparr>]) (email alice) =
     Some [\<lparr>product = shirt, quantity = Fin 3\<rparr>] \<and>
   Product_findById
     ((db_with ''alice@example.com'' [\<lparr>product = shirt, quantity = Fin 3\<rparr>])\<lparr>products := [mug]\<rparr>)
     ''p1'' = None \<and>
   fst (addProductToCart alice ''p1'' (Fin 1)
          ((db_with ''alice@example.com'' [\<lparr>product = shirt, quantity = Fin 3\<rparr>])
             \<lparr>products := [mug]\<rparr>)) =
     Inl err_already_in_cart"
  using add_duplicate_guard_first
    [of "db_with ''alice@example.com'' [\<lparr>product = shirt, quantity = Fin 3\<rparr>]" alice
        "[\<lparr>product = shirt, quantity = Fin 3\<rparr>]" "\<lparr>product = shirt, quantity = Fin 3\<rparr>" "''p1''"
        "Fin 1" "[mug]"]
  by (simp add: scenario_defs error_defs Product_findById_def)

text \<open>
  Claim C5, as stated, fails: the cart is looked up, and created when absent, before the
  product is looked up. A user without a cart who adds an unknown product id gets the
  BadRequest, and an empty cart has been stored for them.
\<close>

theorem add_unknown_product_counterexample:
  "Product_findById empty_db ''p9'' = None \<and>
   carts empty_db (email alice) = None \<and>
   fst (addProductToCart alice ''p9'' (Fin 1) empty_db) =
     Inl (ApiError 400 ''Product doesn't exist in database'') \<and>
   carts (snd (addProductToCart alice ''p9'' (Fin 1) empty_db)) (email alice) = Some []"
  by (simp add: addProductToCart_def service_defs Product_findById_def scenario_defs error_defs)

text \<open>
  Claim C5, amended. For every user and every product id that resolves to no product,
  \<open>addProductToCart\<close> fails and changes the item list of no existing cart. If the user
  has a cart with no item for the id, the failure is BadRequest ``Product doesn't exist
  in database'' and the database is unchanged. If the user has no cart and the cart
  creation succeeds, the failure is the same BadRequest and the only change is a new cart
  with an empty item list stored for that user.
\<close>

theorem add_unknown_product:
  assumes "Product_findById s productId = None"
  shows "(\<forall>items. carts s (email u) = Some items \<and>
            \<not> list_ex (\<lambda>item. product_id (product item) = productId) items \<longrightarrow>
              addProductToCart u productId qty s =
                (Inl (ApiError 400 ''Product doesn't exist in database''), s)) \<and>
         (carts s (email u) = None \<and> \<not> cart_create_fails s \<longrightarrow>
              addProductToCart u productId qty s =
                (Inl (ApiError 400 ''Product doesn't exist in database''),
                 s\<lparr>carts := (carts s)(email u \<mapsto> [])\<rparr>)) \<and>
         (\<exists>e. fst (addProductToCart u productId qty s) = Inl e) \<and>
         (\<forall>e items. carts s e = Some items \<longrightarrow>
              carts (snd (addProductToCart u productId qty s)) e = Some items)"
  using assms
  by (auto simp add: addProductToCart_def service_defs Product_findById_def error_defs
      split: option.splits)

theorem add_unknown_product_witness:
  "Product_findById (db_with ''alice@example.com'' [\<lparr>product = shirt, quantity = Fin 3\<rparr>]) ''p9'' =
     None \<and>
   carts (db_with ''alice@example.com'' [\<lparr>product = shirt, quantity = Fin 3\<rparr>]) (email alice) =
     Some [\<lparr>product = shirt, quantity = Fin 3\<rparr>] \<and>
   \<not> list_ex (\<lambda>item. product_id (product item) = ''p9'') [\<lparr>product = shirt, quantity = Fin 3\<rparr>] \<and>
   addProductToCart alice ''p9'' (Fin 1)
     (db_with ''alice@example.com'' [\<lparr>product = shirt, quantity = Fin 3\<rparr>]) =
     (Inl err_no_product, db_with ''alice@example.com'' [\<lparr>product = shirt, quantity = Fin 3\<rparr>]) \<and>
   Product_findById empty_db ''p9'' = None \<and>
   carts empty_db (email bob) = None \<and>
   \<not> cart_create_fails empty_db \<and>
   addProductToCart bob ''p9'' (Fin 1) empty_db =
     (Inl err_no_product, empty_db\<lparr>carts := (carts empty_db)(email bob \<mapsto> [])\<rparr>)"
proof -
  have a: "Product_findById (db_with ''alice@example.com'' [\<lparr>product = shirt, quantity = Fin 3\<rparr>])
             ''p9'' = None"
    by (simp add: Product_findById_def scenario_defs)
  have b: "Product_findById empty_db ''p9'' = None"
    by (simp add: Product_findById_def scenario_defs)
  have c: "carts (db_with ''alice@example.com'' [\<lparr>product = shirt, quantity = Fin 3\<rparr>])
             (email alice) = Some [\<lparr>product = shirt, quantity = Fin 3\<rparr>]"
    by (simp add: scenario_defs)
  have d: "\<not> list_ex (\<lambda>item. product_id (product item) = ''p9'')
             [\<lparr>product = shirt, quantity = Fin 3\<rparr>]"
    by (simp add: scenario_defs)
  have e: "carts empty_db (email bob) = None \<and> \<not> cart_create_fails empty_db"
    by (simp add: scenario_defs)
  show ?thesis
    using a b c d e
      add_unknown_product [OF a, of alice "Fin 1"] add_unknown_product [OF b, of bob "Fin 1"]
    by (simp add: error_defs)
qed

section \<open>Deleting a product\<close>

text \<open>
  Claim C7. If the user's cart holds an item for the product id,
  \<open>deleteProductFromCart\<close> succeeds and removes exactly that item, the first one for
  the id: the item list splits into the items before it, the item, and the items after
  it, and the list stored afterwards is the items before followed by the items after, in
  their order. Its length is one less than before, and nothing else in the database
  changes.
\<close>

theorem delete_removes_exactly_one:
  assumes "carts s (email u) = Some items"
    and "it \<in> set items"
    and "product_id (product it) = productId"
  shows "\<exists>xs1 x xs2.
           items = xs1 @ x # xs2 \<and>
           product_id (product x) = productId \<and>
           (\<forall>y\<in>set xs1. product_id (product y) \<noteq> productId) \<and>
           deleteProductFromCart u productId s =
             (Inr (), s\<lparr>carts := (carts s)(email u \<mapsto> xs1 @ xs2)\<rparr>) \<and>
           length (xs1 @ xs2) = length items - 1"
proof -
  obtain xs1 x xs2 where sp: "items = xs1 @ x # xs2" "product_id (product x) = productId"
    "\<forall>y\<in>set xs1. product_id (product y) \<noteq> productId"
    using first_match_split [of it items "\<lambda>i. product_id (product i) = productId"] assms
    by blast
  have idx: "findIndex (\<lambda>item. product_id (product item) = productId) items = int (length xs1)"
    using sp by (simp add: findIndex_first)
  have "deleteProductFromCart u productId s =
          (Inr (), s\<lparr>carts := (carts s)(email u \<mapsto> xs1 @ xs2)\<rparr>)"
    using assms(1) idx sp(1) by (simp add: deleteProductFromCart_def service_defs splice_one)
  with sp show ?thesis by auto
qed

text \<open>Deleting the mug from a cart of a shirt and a mug leaves the shirt.\<close>

theorem delete_removes_exactly_one_witness:
  "carts (db_with ''alice@example.com''
            [\<lparr>product = shirt, quantity = Fin 3\<rparr>, \<lparr>product = mug, quantity = Fin 1\<rparr>]) (email alice) =
     Some [\<lparr>product = shirt, quantity = Fin 3\<rparr>, \<lparr>product = mug, quantity = Fin 1\<rparr>] \<and>
   fst (deleteProductFromCart alice ''p2''
          (db_with ''alice@example.com''
             [\<lparr>product = shirt, quantity = Fin 3\<rparr>, \<lparr>product = mug, quantity = Fin 1\<rparr>])) = Inr () \<and>
   carts (snd (deleteProductFromCart alice ''p2''
          (db_with ''alice@example.com''
             [\<lparr>product = shirt, quantity = Fin 3\<rparr>, \<lparr>product = mug, quantity = Fin 1\<rparr>]))) (email alice) =
     Some [\<lparr>product = shirt, quantity = Fin 3\<rparr>]"
proof -
  have c: "carts (db_with ''alice@example.com''
            [\<lparr>product = shirt, quantity = Fin 3\<rparr>, \<lparr>product = mug, quantity = Fin 1\<rparr>]) (email alice) =
     Some [\<lparr>product = shirt, quantity = Fin 3\<rparr>, \<lparr>product = mug, quantity = Fin 1\<rparr>]"
    by (simp add: scenario_defs)
  have m: "\<lparr>product = mug, quantity = Fin 1\<rparr> \<in>
             set [\<lparr>product = shirt, quantity = Fin 3\<rparr>, \<lparr>product = mug, quantity = Fin 1\<rparr>]"
    by simp
  have p: "product_id (product \<lparr>product = mug, quantity = Fin 1\<rparr>) = ''p2''"
    by (simp add: scenario_defs)
  obtain xs1 x xs2 where
    sp: "[\<lparr>product = shirt, quantity = Fin 3\<rparr>, \<lparr>product = mug, quantity = Fin 1\<rparr>] = xs1 @ x # xs2"
    and first: "\<forall>y\<in>set xs1. product_id (product y) \<noteq> ''p2''"
    and px: "product_id (product x) = ''p2''"
    and run: "deleteProductFromCart alice ''p2''
          (db_with ''alice@example.com''
             [\<lparr>product = shirt, quantity = Fin 3\<rparr>, \<lparr>product = mug, quantity = Fin 1\<rparr>]) =
        (Inr (), (db_with ''alice@example.com''
             [\<lparr>product = shirt, quantity = Fin 3\<rparr>, \<lparr>product = mug, quantity = Fin 1\<rparr>])
           \<lparr>carts := (carts (db_with ''alice@example.com''
             [\<lparr>product = shirt, quantity = Fin 3\<rparr>, \<lparr>product = mug, quantity = Fin 1\<rparr>]))
               (email alice \<mapsto> xs1 @ xs2)\<rparr>)"
    using delete_removes_exactly_one [OF c m p] by blast
  have "xs1 = [\<lparr>product = shirt, quantity = Fin 3\<rparr>] \<and> xs2 = []"
    using sp first px
    by (auto simp add: append_eq_Cons_conv Cons_eq_append_conv scenario_defs)
  with c run show ?thesis by simp
qed

section \<open>Updating a quantity\<close>

text \<open>
  Claim C8. If the user has a cart, the product id resolves to a product and the cart
  holds an item for it, \<open>updateProductInCart\<close> succeeds, returns the updated cart and
  stores its item list. The list has the length it had; at the position of the first item
  for the product id the quantity is the new one; every item keeps its product snapshot
  (the updated one too); every item at another position is unchanged. Nothing else in the
  database changes.
\<close>

theorem update_sets_quantity_in_place:
  assumes "carts s (email u) = Some items"
    and "Product_findById s productId = Some p"
    and "it \<in> set items"
    and "product_id (product it) = productId"
  shows "\<exists>items' k.
           updateProductInCart u productId qty s =
             (Inr \<lparr>cart_email = email u, cartItems = items'\<rparr>,
              s\<lparr>carts := (carts s)(email u \<mapsto> items')\<rparr>) \<and>
           length items' = length items \<and>
           k < length items \<and>
           product_id (product (items ! k)) = productId \<and>
           (\<forall>j<k. product_id (product (items ! j)) \<noteq> productId) \<and>
           quantity (items' ! k) = qty \<and>
           (\<forall>j<length items. product (items' ! j) = product (items ! j)) \<and>
           (\<forall>j<length items. j \<noteq> k \<longrightarrow> items' ! j = items ! j)"
proof -
  obtain xs1 x xs2 where sp: "items = xs1 @ x # xs2" "product_id (product x) = productId"
    "\<forall>y\<in>set xs1. product_id (product y) \<noteq> productId"
    using first_match_split [of it items "\<lambda>i. product_id (product i) = productId"] assms
    by blast
  define k where "k = length xs1"
  define items' where "items' = items[k := (items ! k)\<lparr>quantity := qty\<rparr>]"
  have idx: "findIndex (\<lambda>item. product_id (product item) = productId) items = int k"
    using sp by (simp add: findIndex_first k_def)
  have run: "updateProductInCart u productId qty s =
          (Inr \<lparr>cart_email = email u, cartItems = items'\<rparr>,
           s\<lparr>carts := (carts s)(email u \<mapsto> items')\<rparr>)"
    using assms(1,2) idx by (simp add: updateProductInCart_def service_defs items'_def)
  have k: "k < length items" "product_id (product (items ! k)) = productId"
    using sp by (simp_all add: k_def)
  have before: "\<forall>j<k. product_id (product (items ! j)) \<noteq> productId"
    using sp by (simp add: k_def nth_append)
  have "\<forall>j<length items. product (items' ! j) = product (items ! j)"
    using k(1) by (auto simp add: items'_def nth_list_update)
  moreover have "\<forall>j<length items. j \<noteq> k \<longrightarrow> items' ! j = items ! j"
    by (simp add: items'_def)
  moreover have "quantity (items' ! k) = qty" "length items' = length items"
    using k by (simp_all add: items'_def)
  ultimately show ?thesis using run k before by blast
qed

text \<open>Raising the mug's quantity from 1 to 7 in a cart of a shirt and a mug.\<close>

theorem update_sets_quantity_in_place_witness:
  "carts (db_with ''alice@example.com''
            [\<lparr>product = shirt, quantity = Fin 3\<rparr>, \<lparr>product = mug, quantity = Fin 1\<rparr>]) (email alice) =
     Some [\<lparr>product = shirt, quantity = Fin 3\<rparr>, \<lparr>product = mug, quantity = Fin 1\<rparr>] \<and>
   Product_findById (db_with ''alice@example.com''
            [\<lparr>product = shirt, quantity = Fin 3\<rparr>, \<lparr>product = mug, quantity = Fin 1\<rparr>]) ''p2'' = Some mug \<and>
   fst (updateProductInCart alice ''p2'' (Fin 7)
          (db_with ''alice@example.com''
             [\<lparr>product = shirt, quantity = Fin 3\<rparr>, \<lparr>product = mug, quantity = Fin 1\<rparr>])) =
     Inr \<lparr>cart_email = ''alice@example.com'',
          cartItems = [\<lparr>product = shirt, quantity = Fin 3\<rparr>, \<lparr>product = mug, quantity = Fin 7\<rparr>]\<rparr> \<and>
   carts (snd (updateProductInCart alice ''p2'' (Fin 7)
          (db_with ''alice@example.com''
             [\<lparr>product = shirt, quantity = Fin 3\<rparr>, \<lparr>product = mug, quantity = Fin 1\<rparr>]))) (email alice) =
     Some [\<lparr>product = shirt, quantity = Fin 3\<rparr>, \<lparr>product = mug, quantity = Fin 7\<rparr>]"
proof -
  have c: "carts (db_with ''alice@example.com''
            [\<lparr>product = shirt, quantity = Fin 3\<rparr>, \<lparr>product = mug, quantity = Fin 1\<rparr>]) (email alice) =
     Some [\<lparr>product = shirt, quantity = Fin 3\<rparr>, \<lparr>product = mug, quantity = Fin 1\<rparr>]"
    by (simp add: scenario_defs)
  have f: "Product_findById (db_with ''alice@example.com''
            [\<lparr>product = shirt, quantity = Fin 3\<rparr>, \<lparr>product = mug, quantity = Fin 1\<rparr>]) ''p2'' = Some mug"
    by (simp add: Product_findById_def scenario_defs)
  have m: "\<lparr>product = mug, quantity = Fin 1\<rparr> \<in>
             set [\<lparr>product = shirt, quantity = Fin 3\<rparr>, \<lparr>product = mug, quantity = Fin 1\<rparr>]"
    by simp
  have p: "product_id (product \<lparr>product = mug, quantity = Fin 1\<rparr>) = ''p2''"
    by (simp add: scenario_defs)
  obtain items' k where
    run: "updateProductInCart alice ''p2'' (Fin 7)
          (db_with ''alice@example.com''
             [\<lparr>product = shirt, quantity = Fin 3\<rparr>, \<lparr>product = mug, quantity = Fin 1\<rparr>]) =
        (Inr \<lparr>cart_email = email alice, cartItems = items'\<rparr>,
         (db_with ''alice@example.com''
             [\<lparr>product = shirt, quantity = Fin 3\<rparr>, \<lparr>product = mug, quantity = Fin 1\<rparr>])
           \<lparr>carts := (carts (db_with ''alice@example.com''
             [\<lparr>product = shirt, quantity = Fin 3\<rparr>, \<lparr>product = mug, quantity = Fin 1\<rparr>]))
               (email alice \<mapsto> items')\<rparr>)"
    and len: "length items' = length [\<lparr>product = shirt, quantity = Fin 3\<rparr>, \<lparr>product = mug, quantity = Fin 1\<rparr>]"
    and k: "k < length [\<lparr>product = shirt, quantity = Fin 3\<rparr>, \<lparr>product = mug, quantity = Fin 1\<rparr>]"
      "product_id (product ([\<lparr>product = shirt, quantity = Fin 3\<rparr>, \<lparr>product = mug, quantity = Fin 1\<rparr>] ! k))
         = ''p2''"
    and q: "quantity (items' ! k) = Fin 7"
    and snap: "\<forall>j<length [\<lparr>product = shirt, quantity = Fin 3\<rparr>, \<lparr>product = mug, quantity = Fin 1\<rparr>].
        product (items' ! j) =
        product ([\<lparr>product = shirt, quantity = Fin 3\<rparr>, \<lparr>product = mug, quantity = Fin 1\<rparr>] ! j)"
    and rest: "\<forall>j<length [\<lparr>product = shirt, quantity = Fin 3\<rparr>, \<lparr>product = mug, quantity = Fin 1\<rparr>].
        j \<noteq> k \<longrightarrow> items' ! j =
          [\<lparr>product = shirt, quantity = Fin 3\<rparr>, \<lparr>product = mug, quantity = Fin 1\<rparr>] ! j"
    using update_sets_quantity_in_place [OF c f m p, of "Fin 7"] by blast
  have k1: "k = 1"
    using k by (cases k) (simp_all add: scenario_defs)
  obtain a b where ab: "items' = [a, b]"
    using len by (cases items'; cases "tl items'") auto
  have "a = \<lparr>product = shirt, quantity = Fin 3\<rparr>"
    using rest ab k1 by auto
  moreover have "b = \<lparr>product = mug, quantity = Fin 7\<rparr>"
    using q snap ab k1 by (cases b) auto
  ultimately show ?thesis
    using c f run ab by (simp add: scenario_defs)
qed


section \<open>Positive integer quantities\<close>

lemma quantities_positive_store:
  assumes "quantities_positive s" and "\<forall>item\<in>set items. positive_integer (quantity item)"
  shows "quantities_positive (s\<lparr>carts := (carts s)(e \<mapsto> items)\<rparr>)"
  using assms by (auto simp add: quantities_positive_def ran_def split: if_splits)

lemma quantities_positive_users:
  "quantities_positive (s\<lparr>users := us\<rparr>) = quantities_positive s"
  by (simp add: quantities_positive_def)

lemma quantities_positive_lookup:
  "quantities_positive s \<Longrightarrow> carts s e = Some items \<Longrightarrow>
     \<forall>item\<in>set items. positive_integer (quantity item)"
  by (auto simp add: quantities_positive_def ran_def)

lemma add_keeps_positive:
  assumes "quantities_positive s" and "positive_integer qty"
  shows "quantities_positive (snd (addProductToCart u productId qty s))"
proof (cases "carts s (email u)")
  case None
  have "quantities_positive (s\<lparr>carts := (carts s)(email u \<mapsto> [])\<rparr>)"
    using assms(1) by (rule quantities_positive_store) simp
  moreover have "quantities_positive
       (s\<lparr>carts := (carts s)(email u \<mapsto> [\<lparr>product = p, quantity = qty\<rparr>])\<rparr>)" for p
    using assms(1) by (rule quantities_positive_store) (simp add: assms(2))
  ultimately show ?thesis
    using None assms(1)
    by (simp add: addProductToCart_def service_defs Product_findById_def split: option.splits)
next
  case (Some items)
  have old: "\<forall>item\<in>set items. positive_integer (quantity item)"
    using assms(1) Some by (rule quantities_positive_lookup)
  have "quantities_positive
       (s\<lparr>carts := (carts s)(email u \<mapsto> items @ [\<lparr>product = p, quantity = qty\<rparr>])\<rparr>)" for p
    using assms(1) by (rule quantities_positive_store) (simp add: assms(2) old)
  then show ?thesis
    using Some assms(1)
    by (simp add: addProductToCart_def service_defs split: option.splits)
qed

lemma update_keeps_positive:
  assumes "quantities_positive s" and "positive_integer qty"
  shows "quantities_positive (snd (updateProductInCart u productId qty s))"
proof (cases "carts s (email u)")
  case None
  then show ?thesis using assms(1) by (simp add: updateProductInCart_def service_defs)
next
  case (Some items)
  have old: "\<forall>item\<in>set items. positive_integer (quantity item)"
    using assms(1) Some by (rule quantities_positive_lookup)
  have "\<forall>item\<in>set (items[k := (items ! k)\<lparr>quantity := qty\<rparr>]).
          positive_integer (quantity item)" for k
    using old assms(2) set_update_subset_insert [of items k "(items ! k)\<lparr>quantity := qty\<rparr>"]
    by auto
  then have "quantities_positive
       (s\<lparr>carts := (carts s)(email u \<mapsto> items[k := (items ! k)\<lparr>quantity := qty\<rparr>])\<rparr>)" for k
    using assms(1) by (intro quantities_positive_store)
  then show ?thesis
    using Some assms(1)
    by (simp add: updateProductInCart_def service_defs Let_def split: option.splits)
qed

lemma delete_keeps_positive:
  assumes "quantities_positive s"
  shows "quantities_positive (snd (deleteProductFromCart u productId s))"
proof (cases "carts s (email u)")
  case None
  then show ?thesis using assms(1) by (simp add: deleteProductFromCart_def service_defs)
next
  case (Some items)
  have old: "\<forall>item\<in>set items. positive_integer (quantity item)"
    using assms(1) Some by (rule quantities_positive_lookup)
  have "\<forall>item\<in>set (splice_array items i n). positive_integer (quantity item)" for i n
    using old set_splice_subset [of items i n] by auto
  then have "quantities_positive
       (s\<lparr>carts := (carts s)(email u \<mapsto> splice_array items i n)\<rparr>)" for i n
    using assms(1) by (intro quantities_positive_store)
  then show ?thesis
    using Some assms(1)
    by (simp add: deleteProductFromCart_def service_defs Let_def)
qed

lemma checkout_keeps_positive:
  assumes "quantities_positive s"
  shows "quantities_positive (snd (snd (checkout cfg u s)))"
proof -
  have "quantities_positive (s\<lparr>users := us, carts := (carts s)(e \<mapsto> [])\<rparr>)" for us e
    using quantities_positive_store [of "s\<lparr>users := us\<rparr>" "[]" e] assms
    by (simp add: quantities_positive_users)
  then show ?thesis
    using assms
    by (simp add: checkout_def service_defs split: option.splits)
qed

text \<open>
  Claim C9, as stated, fails: the service checks no quantity and stores the number it is
  given. Adding a product with quantity 0 to a database without carts succeeds and stores
  an item of quantity 0; updating an item to quantity \<open>3 / 2\<close>, which is strictly
  greater than zero, succeeds and stores a quantity that is not an integer.
\<close>

theorem quantity_invariant_counterexample:
  "quantities_positive empty_db \<and>
   fst (addProductToCart alice ''p1'' (Fin 0) empty_db) =
     Inr \<lparr>cart_email = ''alice@example.com'',
          cartItems = [\<lparr>product = shirt, quantity = Fin 0\<rparr>]\<rparr> \<and>
   carts (snd (addProductToCart alice ''p1'' (Fin 0) empty_db)) (email alice) =
     Some [\<lparr>product = shirt, quantity = Fin 0\<rparr>] \<and>
   \<not> quantities_positive (snd (addProductToCart alice ''p1'' (Fin 0) empty_db)) \<and>
   quantities_positive (db_with ''alice@example.com'' [\<lparr>product = shirt, quantity = Fin 3\<rparr>]) \<and>
   js_gt (Fin (3 / 2)) (Fin 0) \<and>
   carts (snd (updateProductInCart alice ''p1'' (Fin (3 / 2))
          (db_with ''alice@example.com'' [\<lparr>product = shirt, quantity = Fin 3\<rparr>]))) (email alice) =
     Some [\<lparr>product = shirt, quantity = Fin (3 / 2)\<rparr>] \<and>
   \<not> quantities_positive (snd (updateProductInCart alice ''p1'' (Fin (3 / 2))
          (db_with ''alice@example.com'' [\<lparr>product = shirt, quantity = Fin 3\<rparr>])))"
proof -
  have half: "\<lfloor>3 / 2 :: rat\<rfloor> = 1"
    by (rule floor_unique) simp_all
  show ?thesis
    by (simp add: addProductToCart_def updateProductInCart_def service_defs
        Product_findById_def findIndex_def scenario_defs quantities_positive_def
        positive_integer_def half)
qed

text \<open>
  Claim C9, amended. Starting from a database in which every cart item has an integer
  quantity strictly greater than zero, each operation of the cart service leaves a
  database with the same property, provided that the quantity passed to
  \<open>addProductToCart\<close> or \<open>updateProductInCart\<close> is itself an integer strictly
  greater than zero; \<open>deleteProductFromCart\<close> and \<open>checkout\<close> take no quantity and
  preserve the property always.
\<close>

theorem quantity_invariant_preserved:
  assumes "quantities_positive s"
  shows "(positive_integer qty \<longrightarrow>
            quantities_positive (snd (addProductToCart u productId qty s))) \<and>
         (positive_integer qty \<longrightarrow>
            quantities_positive (snd (updateProductInCart u productId qty s))) \<and>
         quantities_positive (snd (deleteProductFromCart u productId s)) \<and>
         quantities_positive (snd (snd (checkout cfg u s)))"
  using assms
  by (simp add: add_keeps_positive update_keeps_positive delete_keeps_positive
      checkout_keeps_positive)

theorem quantity_invariant_preserved_witness:
  "quantities_positive (db_with ''alice@example.com'' [\<lparr>product = shirt, quantity = Fin 3\<rparr>]) \<and>
   positive_integer (Fin 2) \<and>
   carts (snd (addProductToCart alice ''p2'' (Fin 2)
          (db_with ''alice@example.com'' [\<lparr>product = shirt, quantity = Fin 3\<rparr>]))) (email alice) =
     Some [\<lparr>product = shirt, quantity = Fin 3\<rparr>, \<lparr>product = mug, quantity = Fin 2\<rparr>] \<and>
   quantities_positive (snd (addProductToCart alice ''p2'' (Fin 2)
          (db_with ''alice@example.com'' [\<lparr>product = shirt, quantity = Fin 3\<rparr>]))) \<and>
   carts (snd (updateProductInCart alice ''p1'' (Fin 2)
          (db_with ''alice@example.com'' [\<lparr>product = shirt, quantity = Fin 3\<rparr>]))) (email alice) =
     Some [\<lparr>product = shirt, quantity = Fin 2\<rparr>] \<and>
   quantities_positive (snd (updateProductInCart alice ''p1'' (Fin 2)
          (db_with ''alice@example.com'' [\<lparr>product = shirt, quantity = Fin 3\<rparr>]))) \<and>
   quantities_positive (snd (deleteProductFromCart alice ''p1''
          (db_with ''alice@example.com'' [\<lparr>product = shirt, quantity = Fin 3\<rparr>]))) \<and>
   quantities_positive (snd (snd (checkout default_cfg alice
          (db_with ''alice@example.com'' [\<lparr>product = shirt, quantity = Fin 3\<rparr>]))))"
proof -
  have inv: "quantities_positive
               (db_with ''alice@example.com'' [\<lparr>product = shirt, quantity = Fin 3\<rparr>])"
    by (simp add: quantities_positive_def positive_integer_def scenario_defs)
  have two: "positive_integer (Fin 2)"
    by (simp add: positive_integer_def)
  have added: "carts (snd (addProductToCart alice ''p2'' (Fin 2)
          (db_with ''alice@example.com'' [\<lparr>product = shirt, quantity = Fin 3\<rparr>]))) (email alice) =
     Some [\<lparr>product = shirt, quantity = Fin 3\<rparr>, \<lparr>product = mug, quantity = Fin 2\<rparr>]"
    by (simp add: addProductToCart_def service_defs Product_findById_def scenario_defs)
  have updated: "carts (snd (updateProductInCart alice ''p1'' (Fin 2)
          (db_with ''alice@example.com'' [\<lparr>product = shirt, quantity = Fin 3\<rparr>]))) (email alice) =
     Some [\<lparr>product = shirt, quantity = Fin 2\<rparr>]"
    by (simp add: updateProductInCart_def service_defs Product_findById_def findIndex_def
        scenario_defs)
  show ?thesis
    using inv two added updated
      quantity_invariant_preserved [OF inv, of "Fin 2" alice "''p2''" default_cfg]
      quantity_invariant_preserved [OF inv, of "Fin 2" alice "''p1''" default_cfg]
    by simp
qed

section \<open>No product twice in a cart\<close>

text \<open>
  The operations keep every cart free of repeated products, so the distinctness that the
  statement about duplicate additions asks of a cart holds in every database the service
  builds from one without carts.
\<close>

lemma unique_products_store:
  assumes "unique_products s" and "distinct (map (\<lambda>item. product_id (product item)) items)"
  shows "unique_products (s\<lparr>carts := (carts s)(e \<mapsto> items)\<rparr>)"
  using assms by (auto simp add: unique_products_def ran_def split: if_splits)

lemma unique_products_users:
  "unique_products (s\<lparr>users := us\<rparr>) = unique_products s"
  by (simp add: unique_products_def)

lemma unique_products_lookup:
  "unique_products s \<Longrightarrow> carts s e = Some items \<Longrightarrow>
     distinct (map (\<lambda>item. product_id (product item)) items)"
  by (auto simp add: unique_products_def ran_def)

lemma distinct_splice:
  assumes "distinct (map f xs)"
  shows "distinct (map f (splice_array xs i n))"
proof -
  define len where "len = int (length xs)"
  define st where "st = (if i < 0 then max (len + i) 0 else min i len)"
  define dc where "dc = min (max n 0) (len - st)"
  have "0 \<le> st" "st \<le> len" by (auto simp add: st_def len_def)
  then have "0 \<le> dc" by (simp add: dc_def)
  then have le: "nat st \<le> nat (st + dc)" by simp
  have "set (take (nat st) (map f xs)) \<inter> set (drop (nat (st + dc)) (map f xs)) = {}"
    using assms le by (rule set_take_disj_set_drop_if_distinct)
  then have d: "distinct (take (nat st) (map f xs) @ drop (nat (st + dc)) (map f xs))"
    using assms by simp
  have "splice_array xs i n = take (nat st) xs @ drop (nat (st + dc)) xs"
    by (simp add: splice_array_def Let_def len_def st_def dc_def)
  then have "map f (splice_array xs i n) = take (nat st) (map f xs) @ drop (nat (st + dc)) (map f xs)"
    by (simp only: map_append take_map drop_map)
  with d show ?thesis by (simp only:)
qed

lemma map_key_update:
  "map (\<lambda>item. product_id (product item)) (items[k := (items ! k)\<lparr>quantity := qty\<rparr>]) =
   map (\<lambda>item. product_id (product item)) items"
  by (cases "k < length items") (simp_all add: map_update list_update_same_conv list_update_beyond)

lemma add_keeps_unique:
  assumes "unique_products s"
  shows "unique_products (snd (addProductToCart u productId qty s))"
proof -
  have found: "product_id p = productId" if "Product_findById s1 productId = Some p" for s1 p
    using that by (auto simp add: Product_findById_def find_Some_iff)
  have fresh: "productId \<notin> set (map (\<lambda>item. product_id (product item)) items)"
    if "\<not> list_ex (\<lambda>item. product_id (product item) = productId) items"
    for items :: "cartItem list"
    using that by (auto simp add: list_ex_iff)
  show ?thesis
  proof (cases "carts s (email u)")
    case None
    have "unique_products (s\<lparr>carts := (carts s)(email u \<mapsto> [])\<rparr>)"
      using assms by (rule unique_products_store) simp
    moreover have "unique_products
       (s\<lparr>carts := (carts s)(email u \<mapsto> [\<lparr>product = p, quantity = qty\<rparr>])\<rparr>)" for p
      using assms by (rule unique_products_store) simp
    ultimately show ?thesis
      using None assms
      by (simp add: addProductToCart_def service_defs Product_findById_def split: option.splits)
  next
    case (Some items)
    have old: "distinct (map (\<lambda>item. product_id (product item)) items)"
      using assms Some by (rule unique_products_lookup)
    have "unique_products
       (s\<lparr>carts := (carts s)(email u \<mapsto> items @ [\<lparr>product = p, quantity = qty\<rparr>])\<rparr>)"
      if "\<not> list_ex (\<lambda>item. product_id (product item) = productId) items"
        and "Product_findById s productId = Some p" for p
      using assms
    proof (rule unique_products_store)
      show "distinct (map (\<lambda>item. product_id (product item))
                        (items @ [\<lparr>product = p, quantity = qty\<rparr>]))"
        using old fresh [OF that(1)] found [OF that(2)] by simp
    qed
    then show ?thesis
      using Some assms
      by (simp add: addProductToCart_def service_defs split: option.splits)
  qed
qed

lemma update_keeps_unique:
  assumes "unique_products s"
  shows "unique_products (snd (updateProductInCart u productId qty s))"
proof (cases "carts s (email u)")
  case None
  then show ?thesis using assms by (simp add: updateProductInCart_def service_defs)
next
  case (Some items)
  have old: "distinct (map (\<lambda>item. product_id (product item)) items)"
    using assms Some by (rule unique_products_lookup)
  have "unique_products
       (s\<lparr>carts := (carts s)(email u \<mapsto> items[k := (items ! k)\<lparr>quantity := qty\<rparr>])\<rparr>)" for k
    using assms by (rule unique_products_store) (simp add: map_key_update old)
  then show ?thesis
    using Some assms
    by (simp add: updateProductInCart_def service_defs Let_def split: option.splits)
qed

lemma delete_keeps_unique:
  assumes "unique_products s"
  shows "unique_products (snd (deleteProductFromCart u productId s))"
proof (cases "carts s (email u)")
  case None
  then show ?thesis using assms by (simp add: deleteProductFromCart_def service_defs)
next
  case (Some items)
  have old: "distinct (map (\<lambda>item. product_id (product item)) items)"
    using assms Some by (rule unique_products_lookup)
  have "unique_products (s\<lparr>carts := (carts s)(email u \<mapsto> splice_array items i n)\<rparr>)" for i n
    using assms by (rule unique_products_store) (simp add: distinct_splice old)
  then show ?thesis
    using Some assms
    by (simp add: deleteProductFromCart_def service_defs Let_def)
qed

lemma checkout_keeps_unique:
  assumes "unique_products s"
  shows "unique_products (snd (snd (checkout cfg u s)))"
proof -
  have "unique_products (s\<lparr>users := us, carts := (carts s)(e \<mapsto> [])\<rparr>)" for us e
    using unique_products_store [of "s\<lparr>users := us\<rparr>" "[]" e] assms
    by (simp add: unique_products_users)
  then show ?thesis
    using assms
    by (simp add: checkout_def service_defs split: option.splits)
qed

lemma unique_products_preserved:
  assumes "unique_products s"
  shows "unique_products (snd (addProductToCart u productId qty s))"
    and "unique_products (snd (updateProductInCart u productId qty s))"
    and "unique_products (snd (deleteProductFromCart u productId s))"
    and "unique_products (snd (snd (checkout cfg u s)))"
  using assms
  by (simp_all add: add_keeps_unique update_keeps_unique delete_keeps_unique
      checkout_keeps_unique)

lemma unique_products_empty_db: "unique_products empty_db"
  by (simp add: unique_products_def empty_db_def)

end
